theory Spec2Isabelle
  imports Complex_Main "HOL-Library.Multiset" "HOL-Library.Char_ord" "HOL-Library.List_Lexorder"
begin

section \<open>Dates, times and strings\<close>

text \<open>
  A naive \<open>datetime\<close> is its number of seconds since the epoch, read as local time with no
  zone arithmetic, exactly as the source treats it.  \<open>dt.date()\<close> is the day number,
  \<open>dt.time()\<close> the second of the day (Python orders \<open>time\<close> values as it orders these
  numbers), \<open>dt.timestamp()\<close> the number itself, and the difference of two datetimes in
  \<open>total_seconds()\<close> the difference of the numbers.
\<close>

type_synonym datetime = int

definition date_of :: "datetime \<Rightarrow> int" where
  "date_of dt = dt div 86400"

definition time_of :: "datetime \<Rightarrow> int" where
  "time_of dt = dt mod 86400"

definition mk_dt :: "int \<Rightarrow> int \<Rightarrow> int \<Rightarrow> datetime" where
  \<comment> \<open>day number, hour, minute\<close>
  "mk_dt d h m = d * 86400 + h * 3600 + m * 60"

text \<open>\<open>date.isoformat()\<close>: the proleptic Gregorian date of a day number as YYYY-MM-DD.\<close>

definition civil_from_days :: "int \<Rightarrow> int \<times> int \<times> int" where
  "civil_from_days z =
     (let z' = z + 719468;
          era = z' div 146097;
          doe = z' - era * 146097;
          yoe = (doe - doe div 1460 + doe div 36524 - doe div 146096) div 365;
          doy = doe - (365 * yoe + yoe div 4 - yoe div 100);
          mp = (5 * doy + 2) div 153;
          d = doy - (153 * mp + 2) div 5 + 1;
          m = (if mp < 10 then mp + 3 else mp - 9);
          y = yoe + era * 400 + (if m \<le> 2 then 1 else 0)
      in (y, m, d))"

definition digit_char :: "int \<Rightarrow> char" where
  "digit_char n = char_of (48 + n mod 10)"

definition pad2 :: "int \<Rightarrow> string" where
  "pad2 n = [digit_char (n div 10), digit_char n]"

definition pad4 :: "int \<Rightarrow> string" where
  "pad4 n = [digit_char (n div 1000), digit_char (n div 100), digit_char (n div 10), digit_char n]"

definition isoformat :: "int \<Rightarrow> string" where
  "isoformat day = (case civil_from_days day of (y, m, d) \<Rightarrow> pad4 y @ ''-'' @ pad2 m @ ''-'' @ pad2 d)"

definition flight_day_str :: "datetime \<Rightarrow> string" where
  "flight_day_str dt = isoformat (date_of dt)"

text \<open>
  \<open>str.strip()\<close> removes leading and trailing white space; on the characters below 256 Python's
  white space is the set listed here.
\<close>

definition py_isspace :: "char \<Rightarrow> bool" where
  "py_isspace c \<longleftrightarrow> c \<in> set [CHR 0x09, CHR 0x0A, CHR 0x0B, CHR 0x0C, CHR 0x0D, CHR 0x1C, CHR 0x1D,
                              CHR 0x1E, CHR 0x1F, CHR 0x20, CHR 0x85, CHR 0xA0]"

definition strip :: "string \<Rightarrow> string" where
  "strip s = rev (dropWhile py_isspace (rev (dropWhile py_isspace s)))"

text \<open>\<open>s.split(sep)\<close> for a one-character separator.\<close>

fun split_on :: "char \<Rightarrow> string \<Rightarrow> string list" where
  "split_on sep [] = [[]]"
| "split_on sep (c # cs) =
     (if c = sep then [] # split_on sep cs
      else (case split_on sep cs of [] \<Rightarrow> [[c]] | w # ws \<Rightarrow> (c # w) # ws))"

section \<open>Domain and rules model (models.py)\<close>

text \<open>
  The module \<open>models\<close> that \<open>eligibility.py\<close> and \<open>constraints.py\<close> import is read from
  \<open>Archive/backend/core/models.py\<close>, the only copy in the sources.
\<close>

definition role_key :: "string \<Rightarrow> string" where
  "role_key raw =
     (let r = strip raw in
      if r \<in> set [''FO'', ''First Officer''] then ''FO''
      else if r \<in> set [''Senior Crew'', ''Senior Cabin Crew'', ''SC''] then ''SC''
      else if r \<in> set [''Junior Cabin Crew'', ''Cabin Crew'', ''CC''] then ''CC''
      else ''Captain'')"

definition in_window :: "int \<Rightarrow> int \<Rightarrow> int \<Rightarrow> bool" where
  \<comment> \<open>the local function of \<open>in_night_window\<close>; \<open>wraps\<close> is \<open>start_local > end_local\<close>\<close>
  "in_window start_local end_local t =
     (if start_local > end_local then t \<ge> start_local \<or> t < end_local
      else start_local \<le> t \<and> t < end_local)"

definition in_night_window :: "datetime \<Rightarrow> datetime \<Rightarrow> int \<Rightarrow> int \<Rightarrow> bool" where
  "in_night_window dep arr start_local end_local =
     (let dep_t = time_of dep; arr_t = time_of arr; wraps = start_local > end_local in
      in_window start_local end_local dep_t \<or> in_window start_local end_local arr_t
        \<or> (wraps \<and> date_of dep \<noteq> date_of arr))"

record flight =
  flight_id :: string
  dep_airport :: string
  arr_airport :: string
  dep_dt :: datetime
  arr_dt :: datetime
  aircraft_type :: string
  needed_captains :: int
  needed_fo :: int
  needed_sc :: int
  needed_cc :: int

definition duration_minutes :: "flight \<Rightarrow> int" where
  "duration_minutes f = (arr_dt f - dep_dt f) div 60"

record crew =
  crew_id :: string
  name :: string
  role :: string
  base :: string
  qualified_types :: string
  weekly_max_duty_hrs :: "int option"
  leave_status :: string
  sccm_certified :: bool
  experience_months :: int

definition role_norm :: "crew \<Rightarrow> string" where
  "role_norm c = role_key (role c)"

definition some_portion_in_window :: "datetime \<Rightarrow> datetime \<Rightarrow> int \<Rightarrow> int \<Rightarrow> bool" where
  \<comment> \<open>the docstring of \<open>in_night_window\<close>: some instant of [dep, arr] has its time of day in
      the window [start_local, end_local), which wraps midnight when start_local > end_local\<close>
  "some_portion_in_window dep arr start_local end_local \<longleftrightarrow>
     (\<exists>t. dep \<le> t \<and> t \<le> arr \<and> in_window start_local end_local (time_of t))"

record rules =
  daily_max_duty_hrs :: "string \<rightharpoonup> int"
  weekly_max_duty_hrs_default :: int
  min_rest_hours_between_duties :: int
  max_overnight_duties_per_week :: int
  turnaround_minutes :: int
  night_duty_window :: "int \<times> int"
  max_consecutive_night_duties :: int
  wocl_window :: "int \<times> int"
  flight_time_limits :: "string \<rightharpoonup> int"
  composition_sccm :: "string \<rightharpoonup> int"
  ulh_ft_threshold_hours :: real

text \<open>
  \<open>composition_sccm\<close> is the dictionary \<open>rules.composition.get("cabin", {}).get("sccm", {})\<close>;
  the fields of \<open>Rules\<close> that no modelled function reads are left out.
\<close>

definition daily_cap_for_role :: "rules \<Rightarrow> string \<Rightarrow> int" where
  "daily_cap_for_role r role_n =
     (let d = daily_max_duty_hrs r;
          get = (\<lambda>k dflt. case d k of None \<Rightarrow> dflt | Some v \<Rightarrow> v) in
      if role_n = ''CC'' then get ''Cabin'' 11
      else if role_n = ''SC'' then get ''Senior Cabin'' (get ''Cabin'' 12)
      else if role_n = ''FO'' then get ''First Officer'' 10
      else get ''Captain'' 10)"

section \<open>Loaded data (loader.py)\<close>

record data_bundle =
  flights :: "flight list"
  crew :: "crew list"
  rules :: rules
  sickness_days :: "string \<rightharpoonup> string set"
  prefs :: "string \<rightharpoonup> string set \<times> string set"

text \<open>
  \<open>prefs\<close> gives the requested days off and the preferred sectors of a crew id.
  The loader derives the remaining fields of \<open>DataBundle\<close> from the two lists: the
  dictionaries by id keep the last record of an id, the operating days are the sorted
  distinct departure days.
\<close>

definition flights_by_id :: "data_bundle \<Rightarrow> string \<rightharpoonup> flight" where
  "flights_by_id b = fold (\<lambda>f m. m(flight_id f \<mapsto> f)) (flights b) Map.empty"

definition crew_by_id :: "data_bundle \<Rightarrow> string \<rightharpoonup> crew" where
  "crew_by_id b = fold (\<lambda>c m. m(crew_id c \<mapsto> c)) (crew b) Map.empty"

definition operating_days :: "data_bundle \<Rightarrow> string list" where
  "operating_days b = sort (remdups (map (\<lambda>f. flight_day_str (dep_dt f)) (flights b)))"

section \<open>Eligibility builder (eligibility.py)\<close>

datatype role_slot = RoleSlot (rs_flight_id: string) (rs_role: string) (slot_index: nat)

type_synonym elig_tuple = "string \<times> string \<times> string \<times> nat"

record eligibility_bundle =
  role_slots :: "role_slot list"
  eligible :: "elig_tuple list"
  minutes_by_flight :: "string \<rightharpoonup> int"
  day_by_flight :: "string \<rightharpoonup> string"
  sector_by_flight :: "string \<rightharpoonup> string"
  aircraft_by_flight :: "string \<rightharpoonup> string"

definition slots_of_flight :: "flight \<Rightarrow> role_slot list" where
  "slots_of_flight f =
     map (RoleSlot (flight_id f) ''Captain'') [0..<nat (needed_captains f)]
   @ map (RoleSlot (flight_id f) ''FO'') [0..<nat (needed_fo f)]
   @ map (RoleSlot (flight_id f) ''SC'') [0..<nat (needed_sc f)]
   @ map (RoleSlot (flight_id f) ''CC'') [0..<nat (needed_cc f)]"

definition build_role_slots :: "data_bundle \<Rightarrow> role_slot list" where
  "build_role_slots b = concat (map slots_of_flight (flights b))"

definition sick_days_of :: "data_bundle \<Rightarrow> string \<Rightarrow> string set" where
  \<comment> \<open>\<open>bundle.sickness_days.get(crew_id, set())\<close>\<close>
  "sick_days_of b cid = (case sickness_days b cid of None \<Rightarrow> {} | Some S \<Rightarrow> S)"

definition crew_can_work_that_day :: "string \<Rightarrow> string \<Rightarrow> data_bundle \<Rightarrow> bool" where
  "crew_can_work_that_day cid day_str b \<longleftrightarrow> day_str \<notin> sick_days_of b cid"

definition crew_role_matches :: "string \<Rightarrow> string \<Rightarrow> bool" where
  "crew_role_matches slot_role crew_role_raw \<longleftrightarrow> role_key crew_role_raw = slot_role"

definition crew_qualified_for :: "string \<Rightarrow> string \<Rightarrow> bool" where
  "crew_qualified_for ac_type qualified \<longleftrightarrow> ac_type \<in> set (split_on CHR ''|'' qualified)"

definition flight_minutes :: "flight \<Rightarrow> int" where
  \<comment> \<open>\<open>max(1, int((f.arr_dt - f.dep_dt).total_seconds() // 60))\<close>\<close>
  "flight_minutes f = max 1 ((arr_dt f - dep_dt f) div 60)"

definition eligible_for_slot :: "data_bundle \<Rightarrow> (string \<rightharpoonup> string) \<Rightarrow> role_slot \<Rightarrow> elig_tuple list" where
  \<comment> \<open>the body of the loop over the role slots; both lookups succeed for every slot that
      \<open>build_role_slots\<close> makes, so the branch of a missing key is never taken\<close>
  "eligible_for_slot b days slot =
     (case (flights_by_id b (rs_flight_id slot), days (rs_flight_id slot)) of
        (Some f, Some day_str) \<Rightarrow>
          map (\<lambda>c. (crew_id c, rs_flight_id slot, rs_role slot, slot_index slot))
            (filter (\<lambda>c. crew_role_matches (rs_role slot) (role c)
                        \<and> crew_qualified_for (aircraft_type f) (qualified_types c)
                        \<and> crew_can_work_that_day (crew_id c) day_str b) (crew b))
      | _ \<Rightarrow> [])"

definition build_eligibility :: "data_bundle \<Rightarrow> eligibility_bundle" where
  "build_eligibility b =
     (let slots = build_role_slots b;
          mins = fold (\<lambda>f m. m(flight_id f \<mapsto> flight_minutes f)) (flights b) Map.empty;
          days = fold (\<lambda>f m. m(flight_id f \<mapsto> flight_day_str (dep_dt f))) (flights b) Map.empty;
          sectors = fold (\<lambda>f m. m(flight_id f \<mapsto> dep_airport f @ ''-'' @ arr_airport f)) (flights b) Map.empty;
          aircraft = fold (\<lambda>f m. m(flight_id f \<mapsto> aircraft_type f)) (flights b) Map.empty
      in \<lparr> role_slots = slots,
           eligible = concat (map (eligible_for_slot b days) slots),
           minutes_by_flight = mins,
           day_by_flight = days,
           sector_by_flight = sectors,
           aircraft_by_flight = aircraft \<rparr>)"

section \<open>Python containers\<close>

text \<open>
  A \<open>dict\<close> that the code iterates is an association list in insertion order:
  assigning to a key that is present replaces its value in place, assigning to a new key
  appends it.  \<open>dict_update k g\<close> stores \<open>g\<close> of the old value (\<open>None\<close> when the key is new),
  which covers \<open>d[k] = v\<close>, \<open>d[k] = d.get(k, 0) + h\<close> and \<open>d.setdefault(k, []).append(v)\<close>.
\<close>

fun dict_update :: "'k \<Rightarrow> ('v option \<Rightarrow> 'v) \<Rightarrow> ('k \<times> 'v) list \<Rightarrow> ('k \<times> 'v) list" where
  "dict_update k g [] = [(k, g None)]"
| "dict_update k g ((k', v) # d) =
     (if k' = k then (k', g (Some v)) # d else (k', v) # dict_update k g d)"

definition list_append :: "'a \<Rightarrow> 'a list option \<Rightarrow> 'a list" where
  \<comment> \<open>\<open>d.setdefault(k, []).append(x)\<close> and \<open>defaultdict(list)[k].append(x)\<close>\<close>
  "list_append x old = (case old of None \<Rightarrow> [x] | Some xs \<Rightarrow> xs @ [x])"

text \<open>The distinct elements of a list in the order of their first occurrence.\<close>

fun uniq :: "'a list \<Rightarrow> 'a list" where
  "uniq [] = []"
| "uniq (x # xs) = x # uniq (filter (\<lambda>y. y \<noteq> x) xs)"

section \<open>Genetic search engine (genetic_optimizer.py)\<close>

record ga_crew =
  g_crew_id :: string
  g_name :: string
  g_role :: string
  g_base :: string
  g_qualified_types :: "string list"
  g_weekly_max_duty_hrs :: int
  available :: bool
  g_sccm_certified :: bool
  g_experience_months :: int

datatype assignment = Assignment (a_crew_id: string) (a_flight_id: string) (a_role: string)

text \<open>
  The state of a \<open>GeneticOptimizer\<close> that the modelled methods read.  Flights are the
  \<open>flight\<close> records above (the engine's own \<open>Flight\<close> class has the same fields).
\<close>

record optimizer =
  g_flights :: "flight list"
  g_crew :: "ga_crew list"
  baseline_pairs :: "(string \<times> string \<times> string) set"
  exclude_crew :: "string set"
  exclude_flights :: "string set"
  w_ot :: real
  w_fair :: real
  w_base :: real
  w_continuity :: real
  w_stability :: real

definition g_flights_by_id :: "optimizer \<Rightarrow> string \<rightharpoonup> flight" where
  \<comment> \<open>\<open>{f.flight_id: f for f in self.flights}\<close>\<close>
  "g_flights_by_id st = fold (\<lambda>f m. m(flight_id f \<mapsto> f)) (g_flights st) Map.empty"

definition g_crew_by_id :: "optimizer \<Rightarrow> string \<rightharpoonup> ga_crew" where
  "g_crew_by_id st = fold (\<lambda>c m. m(g_crew_id c \<mapsto> c)) (g_crew st) Map.empty"

definition next_crew :: "optimizer \<Rightarrow> string \<Rightarrow> ga_crew option" where
  \<comment> \<open>\<open>next(c for c in self.crew if c.crew_id == cid)\<close>; \<open>None\<close> is \<open>StopIteration\<close>\<close>
  "next_crew st cid = find (\<lambda>c. g_crew_id c = cid) (g_crew st)"

definition next_flight :: "optimizer \<Rightarrow> string \<Rightarrow> flight option" where
  "next_flight st fid = find (\<lambda>f. flight_id f = fid) (g_flights st)"

subsection \<open>Baseline and stability\<close>

type_synonym baseline_entry = "string option \<times> string option \<times> string option"

text \<open>
  A baseline assignment is a dictionary; the three components are what \<open>a.get("crew_id")\<close>,
  \<open>a.get("flight_id")\<close> and \<open>a.get("role")\<close> return, \<open>None\<close> for a missing key.
\<close>

definition falsy :: "string option \<Rightarrow> bool" where
  "falsy v \<longleftrightarrow> (case v of None \<Rightarrow> True | Some s \<Rightarrow> s = [])"

definition baseline_step ::
  "string set \<Rightarrow> string set \<Rightarrow> baseline_entry \<Rightarrow> (string \<times> string \<times> string) set
     \<Rightarrow> (string \<times> string \<times> string) set" where
  "baseline_step xc xf a pairs =
     (case a of (c_id, f_id, rl) \<Rightarrow>
        if falsy c_id \<or> falsy f_id \<or> falsy rl then pairs
        else if the c_id \<in> xc \<or> the f_id \<in> xf then pairs
        else insert (the c_id, the f_id, the rl) pairs)"

definition set_baseline ::
  "optimizer \<Rightarrow> baseline_entry list \<Rightarrow> string set \<Rightarrow> string set \<Rightarrow> optimizer" where
  "set_baseline st baseline_assignments xc xf =
     st\<lparr> exclude_crew := xc, exclude_flights := xf,
         baseline_pairs := fold (baseline_step xc xf) baseline_assignments {} \<rparr>"

definition sol_pairs :: "assignment list \<Rightarrow> (string \<times> string \<times> string) set" where
  "sol_pairs solution = set (map (\<lambda>a. (a_crew_id a, a_flight_id a, a_role a)) solution)"

definition calculate_stability_bonus :: "optimizer \<Rightarrow> assignment list \<Rightarrow> real" where
  "calculate_stability_bonus st solution =
     (if baseline_pairs st = {} then 0
      else real (card (sol_pairs solution \<inter> baseline_pairs st))
             / real (max 1 (card (baseline_pairs st))))"

subsection \<open>Continuity repair\<close>

definition pair_of :: "assignment \<Rightarrow> string \<times> string" where
  "pair_of a = (a_crew_id a, a_flight_id a)"

definition by_cf :: "assignment list \<Rightarrow> ((string \<times> string) \<times> assignment list) list" where
  "by_cf solution = fold (\<lambda>a. dict_update (pair_of a) (list_append a)) solution []"

fun flights_for_crew ::
  "optimizer \<Rightarrow> (string \<times> string) set \<Rightarrow> (string \<times> flight list) list \<Rightarrow> assignment list
     \<Rightarrow> (string \<times> flight list) list" where
  "flights_for_crew st seen d [] = d"
| "flights_for_crew st seen d (a # as) =
     (if pair_of a \<in> seen then flights_for_crew st seen d as
      else (case g_flights_by_id st (a_flight_id a) of
              None \<Rightarrow> flights_for_crew st (insert (pair_of a) seen) d as
            | Some f \<Rightarrow>
                flights_for_crew st (insert (pair_of a) seen)
                  (dict_update (a_crew_id a) (list_append f) d) as))"

fun keep_chain :: "string option \<Rightarrow> flight list \<Rightarrow> flight list" where
  \<comment> \<open>the flights of one crew that the inner loop adds to \<open>kept_pairs\<close>, \<open>last_arr\<close> first\<close>
  "keep_chain last_arr [] = []"
| "keep_chain last_arr (f # fs) =
     (if last_arr = None \<or> Some (dep_airport f) = last_arr
      then f # keep_chain (Some (arr_airport f)) fs
      else keep_chain last_arr fs)"

definition kept_pairs :: "(string \<times> flight list) list \<Rightarrow> (string \<times> string) set" where
  "kept_pairs d =
     set (concat (map (\<lambda>(cid, flist).
            map (\<lambda>f. (cid, flight_id f)) (keep_chain None (sort_key dep_dt flist))) d))"

definition repair_solution_continuity :: "optimizer \<Rightarrow> assignment list \<Rightarrow> assignment list" where
  "repair_solution_continuity st solution =
     (if solution = [] then solution
      else let kept = kept_pairs (flights_for_crew st {} [] solution)
           in concat (map snd (filter (\<lambda>(k, assigns). k \<in> kept) (by_cf solution))))"

text \<open>
  The continuity chain of the specification: the distinct flights of a crew in a solution,
  ordered by departure time, each one after the first leaving from the airport where the
  one before it arrived.
\<close>

definition crew_route :: "optimizer \<Rightarrow> assignment list \<Rightarrow> string \<Rightarrow> flight list" where
  "crew_route st solution cid =
     sort_key dep_dt
       (List.map_filter (g_flights_by_id st)
          (uniq (map a_flight_id (filter (\<lambda>a. a_crew_id a = cid) solution))))"

fun linked :: "flight list \<Rightarrow> bool" where
  "linked [] = True"
| "linked [f] = True"
| "linked (f # g # fs) = (dep_airport g = arr_airport f \<and> linked (g # fs))"

subsection \<open>Random construction and mutation\<close>

text \<open>
  The draws of the random generator are parameters: \<open>random.choice(xs)\<close> with draw \<open>r\<close> is
  \<open>xs ! (r mod length xs)\<close> on a non-empty list, and \<open>random.random() < mutation_rate\<close> is a
  boolean draw.  A statement for all draws covers every run.
\<close>

definition choice :: "nat \<Rightarrow> 'a list \<Rightarrow> 'a" where
  "choice r xs = xs ! (r mod length xs)"

fun assign_seats ::
  "(nat \<Rightarrow> nat) \<Rightarrow> ga_crew list \<Rightarrow> flight \<Rightarrow> string \<Rightarrow> nat \<Rightarrow> assignment list \<times> nat
     \<Rightarrow> assignment list \<times> nat" where
  "assign_seats rnd pool f label 0 (sol, i) = (sol, i)"
| "assign_seats rnd pool f label (Suc n) (sol, i) =
     (let eligible_crew = filter (\<lambda>c. aircraft_type f \<in> set (g_qualified_types c)) pool in
      if eligible_crew \<noteq> []
      then assign_seats rnd pool f label n
             (sol @ [Assignment (g_crew_id (choice (rnd i) eligible_crew)) (flight_id f) label], Suc i)
      else assign_seats rnd pool f label n (sol, i))"

definition random_fill :: "(nat \<Rightarrow> nat) \<Rightarrow> optimizer \<Rightarrow> assignment list" where
  \<comment> \<open>the body of \<open>create_random_solution\<close> before the repair\<close>
  "random_fill rnd st =
     (let captains = filter (\<lambda>c. g_role c \<in> set [''Captain'', ''CPT''] \<and> available c) (g_crew st);
          first_officers = filter (\<lambda>c. g_role c \<in> set [''First Officer'', ''FO''] \<and> available c) (g_crew st);
          senior_crew = filter (\<lambda>c. g_role c \<in> set [''Senior Crew'', ''Senior Cabin'', ''SC''] \<and> available c) (g_crew st);
          cabin_crew = filter (\<lambda>c. g_role c \<in> set [''Cabin Crew'', ''CC''] \<and> available c) (g_crew st)
      in fst (fold (\<lambda>f acc.
                assign_seats rnd cabin_crew f ''Cabin Crew'' (nat (needed_cc f))
                  (assign_seats rnd senior_crew f ''Senior Crew'' (nat (needed_sc f))
                    (assign_seats rnd first_officers f ''First Officer'' (nat (needed_fo f))
                      (assign_seats rnd captains f ''Captain'' (nat (needed_captains f)) acc))))
              (g_flights st) ([], 0)))"

definition create_random_solution :: "(nat \<Rightarrow> nat) \<Rightarrow> optimizer \<Rightarrow> assignment list" where
  "create_random_solution rnd st = repair_solution_continuity st (random_fill rnd st)"

definition mutate_gene :: "optimizer \<Rightarrow> bool \<Rightarrow> nat \<Rightarrow> assignment \<Rightarrow> assignment option" where
  \<comment> \<open>one round of the loop of \<open>mutate\<close>; \<open>None\<close> is the \<open>StopIteration\<close> of the flight lookup\<close>
  "mutate_gene st hit r a =
     (if hit then
        (case next_flight st (a_flight_id a) of
           None \<Rightarrow> None
         | Some f \<Rightarrow>
             (let available_crew =
                    filter (\<lambda>c. g_role c = a_role a \<and> available c
                                \<and> aircraft_type f \<in> set (g_qualified_types c)
                                \<and> g_crew_id c \<noteq> a_crew_id a) (g_crew st)
              in if available_crew \<noteq> []
                 then Some (Assignment (g_crew_id (choice r available_crew)) (a_flight_id a) (a_role a))
                 else Some a))
      else Some a)"

fun mutate_genes ::
  "optimizer \<Rightarrow> (nat \<Rightarrow> bool) \<Rightarrow> (nat \<Rightarrow> nat) \<Rightarrow> nat \<Rightarrow> assignment list \<Rightarrow> assignment list option" where
  "mutate_genes st hit rnd i [] = Some []"
| "mutate_genes st hit rnd i (a # as) =
     (case mutate_gene st (hit i) (rnd i) a of
        None \<Rightarrow> None
      | Some a' \<Rightarrow> map_option ((#) a') (mutate_genes st hit rnd (Suc i) as))"

definition mutate ::
  "optimizer \<Rightarrow> (nat \<Rightarrow> bool) \<Rightarrow> (nat \<Rightarrow> nat) \<Rightarrow> assignment list \<Rightarrow> assignment list option" where
  "mutate st hit rnd solution =
     map_option (repair_solution_continuity st) (mutate_genes st hit rnd 0 solution)"

definition crossover ::
  "bool \<Rightarrow> nat \<Rightarrow> assignment list \<Rightarrow> assignment list \<Rightarrow> assignment list \<times> assignment list" where
  \<comment> \<open>\<open>skip\<close> is \<open>random.random() > crossover_rate\<close>; with draw \<open>r\<close> the point
      \<open>random.randint(1, m - 1)\<close> is \<open>1 + r mod (m - 1)\<close>\<close>
  "crossover skip r parent1 parent2 =
     (if skip then (parent1, parent2)
      else if length parent1 > 1 \<and> length parent2 > 1 then
        (let point = 1 + r mod (min (length parent1) (length parent2) - 1)
         in (take point parent1 @ drop point parent2, take point parent2 @ drop point parent1))
      else (parent1, parent2))"

subsection \<open>Fitness\<close>

text \<open>
  Floats are read as real numbers, with \<open>float('-inf')\<close> a value of its own.  A helper
  returns \<open>None\<close> where the Python raises; \<open>evaluate_fitness\<close> catches every exception of
  its body and returns minus infinity.
\<close>

datatype fitness = NegInf | Fin real

definition total_required_positions :: "optimizer \<Rightarrow> int" where
  "total_required_positions st =
     sum_list (map (\<lambda>f. needed_captains f + needed_fo f + needed_sc f + needed_cc f) (g_flights st))"

definition calculate_coverage_score :: "optimizer \<Rightarrow> assignment list \<Rightarrow> real option" where
  \<comment> \<open>\<open>None\<close> is the \<open>ZeroDivisionError\<close>\<close>
  "calculate_coverage_score st solution =
     (if total_required_positions st = 0 then None
      else Some (min 1 (real (length solution) / real_of_int (total_required_positions st))))"

definition flight_hours :: "flight \<Rightarrow> real" where
  "flight_hours f = real_of_int (arr_dt f - dep_dt f) / 3600"

definition add_hours :: "real \<Rightarrow> real option \<Rightarrow> real" where
  \<comment> \<open>\<open>crew_hours.get(crew_id, 0) + flight_hours\<close>\<close>
  "add_hours h old = (case old of None \<Rightarrow> 0 | Some x \<Rightarrow> x) + h"

fun crew_hours :: "optimizer \<Rightarrow> (string \<times> real) list \<Rightarrow> assignment list \<Rightarrow> (string \<times> real) list option" where
  "crew_hours st d [] = Some d"
| "crew_hours st d (a # as) =
     (case next_crew st (a_crew_id a) of
        None \<Rightarrow> None
      | Some c \<Rightarrow>
          (case next_flight st (a_flight_id a) of
             None \<Rightarrow> None
           | Some f \<Rightarrow> crew_hours st (dict_update (a_crew_id a) (add_hours (flight_hours f)) d) as))"

fun overtime_sum :: "optimizer \<Rightarrow> real \<Rightarrow> (string \<times> real) list \<Rightarrow> real option" where
  "overtime_sum st overtime [] = Some overtime"
| "overtime_sum st overtime ((cid, hours) # d) =
     (case next_crew st cid of
        None \<Rightarrow> None
      | Some c \<Rightarrow>
          overtime_sum st
            (if hours > real_of_int (g_weekly_max_duty_hrs c)
             then overtime + (hours - real_of_int (g_weekly_max_duty_hrs c)) else overtime) d)"

definition calculate_overtime_penalty :: "optimizer \<Rightarrow> assignment list \<Rightarrow> real option" where
  "calculate_overtime_penalty st solution =
     (case crew_hours st [] solution of None \<Rightarrow> None | Some d \<Rightarrow> overtime_sum st 0 d)"

definition np_mean :: "real list \<Rightarrow> real" where
  "np_mean xs = sum_list xs / real (length xs)"

definition np_std :: "real list \<Rightarrow> real" where
  "np_std xs = sqrt (np_mean (map (\<lambda>x. (x - np_mean xs)\<^sup>2) xs))"

definition calculate_fairness_score :: "optimizer \<Rightarrow> assignment list \<Rightarrow> real option" where
  "calculate_fairness_score st solution =
     (case crew_hours st [] solution of
        None \<Rightarrow> None
      | Some d \<Rightarrow>
          Some (if d = [] then 0
                else let hours_list = map snd d;
                         mean_hours = np_mean hours_list;
                         std_hours = np_std hours_list
                     in if mean_hours = 0 then 1 else max 0 (1 - std_hours / mean_hours)))"

definition crew_schedules :: "optimizer \<Rightarrow> assignment list \<Rightarrow> (string \<times> flight list) list" where
  \<comment> \<open>built by \<open>setdefault(...).append(flight)\<close>, then each list sorted by departure\<close>
  "crew_schedules st solution =
     map (\<lambda>(cid, fl). (cid, sort_key dep_dt fl))
       (fold (\<lambda>a d. case g_flights_by_id st (a_flight_id a) of
                       None \<Rightarrow> d
                     | Some f \<Rightarrow> dict_update (a_crew_id a) (list_append f) d) solution [])"

fun continuity_breaks :: "flight list \<Rightarrow> nat" where
  "continuity_breaks [] = 0"
| "continuity_breaks [f] = 0"
| "continuity_breaks (f # g # fs) =
     (if arr_airport f \<noteq> dep_airport g then 1 else 0) + continuity_breaks (g # fs)"

definition max_by_arr :: "flight \<Rightarrow> flight list \<Rightarrow> flight" where
  \<comment> \<open>\<open>max(day_flights, key=lambda f: f.arr_dt)\<close> on the non-empty list \<open>f # fs\<close>: the first
      flight of greatest arrival\<close>
  "max_by_arr f fs = fold (\<lambda>g best. if arr_dt g > arr_dt best then g else best) fs f"

definition days_away :: "string \<Rightarrow> flight list \<Rightarrow> nat" where
  "days_away crew_base fl =
     (let daily_groups = fold (\<lambda>f. dict_update (flight_day_str (dep_dt f)) (list_append f)) fl [] in
      length (filter (\<lambda>(day, day_flights).
                        case day_flights of [] \<Rightarrow> False
                        | f # fs \<Rightarrow> arr_airport (max_by_arr f fs) \<noteq> crew_base) daily_groups))"

definition calculate_continuity_and_base_penalties :: "optimizer \<Rightarrow> assignment list \<Rightarrow> real \<times> real" where
  "calculate_continuity_and_base_penalties st solution =
     (let sched = crew_schedules st solution;
          continuity_penalty = sum_list (map (\<lambda>(cid, fl). 100 * real (continuity_breaks fl)) sched);
          base_return_penalty =
            sum_list (map (\<lambda>(cid, fl). case g_crew_by_id st cid of
                                          None \<Rightarrow> 0
                                        | Some c \<Rightarrow> real (days_away (g_base c) fl)) sched)
      in (continuity_penalty, base_return_penalty))"

definition evaluate_fitness :: "optimizer \<Rightarrow> assignment list \<Rightarrow> fitness" where
  "evaluate_fitness st solution =
     (if solution = [] then NegInf
      else case calculate_coverage_score st solution of
        None \<Rightarrow> NegInf
      | Some coverage_score \<Rightarrow>
          if coverage_score \<le> 0 then NegInf
          else case calculate_overtime_penalty st solution of
            None \<Rightarrow> NegInf
          | Some overtime_penalty \<Rightarrow>
              (case calculate_fairness_score st solution of
                 None \<Rightarrow> NegInf
               | Some fairness_score \<Rightarrow>
                   (case calculate_continuity_and_base_penalties st solution of
                      (continuity_penalty, base_return_penalty) \<Rightarrow>
                        Fin (max (1000 * coverage_score
                                  - 0.1 * w_ot st * overtime_penalty
                                  + 0.1 * w_fair st * fairness_score
                                  - 0.01 * w_continuity st * continuity_penalty
                                  - 0.01 * w_base st * base_return_penalty
                                  + w_stability st * calculate_stability_bonus st solution) 0.1))))"

text \<open>
  The fitness as the specification words it, with the weights of the code: every term but
  the coverage and the stability is subtracted.
\<close>

definition fitness_as_specified ::
  "optimizer \<Rightarrow> real \<Rightarrow> real \<Rightarrow> real \<Rightarrow> real \<Rightarrow> real \<Rightarrow> real \<Rightarrow> real" where
  "fitness_as_specified st coverage overtime fairness_bonus continuity_violations base_violations
      stability_fraction =
     max (1000 * coverage
          - 0.1 * w_ot st * overtime
          - 0.1 * w_fair st * fairness_bonus
          - 0.01 * w_continuity st * continuity_violations
          - 0.01 * w_base st * base_violations
          + w_stability st * stability_fraction) 0.1"

section \<open>Constraint model encoder (constraints.py, objective.py)\<close>

text \<open>
  \<open>constraints.py\<close> carries the markers of an unresolved merge; the two sides of every
  conflict differ in comments and blank lines only, and the model follows their common code.

  The model handed to the solver is a list of constraints over integer variables.  A
  variable is named by the place that creates it: \<open>X i\<close> is the boolean of the \<open>i\<close>-th
  eligible tuple, the variables of a crew carry the position of the crew record in
  \<open>bundle.crew\<close>, those of a crew and a day the day as well.
\<close>

datatype var =
    X nat
  | Tot nat
  | DayMinutes nat string
  | FlightCount nat string
  | WoclStartCount nat string
  | WoclOverlapCount nat string
  | BLe8 nat string
  | B8to11 nat string
  | BGt11 nat string
  | WoclStartInd nat string
  | WoclOverlapInd nat string
  | Overtime nat
  | BasePenalty nat string
  | SumTotals
  | AvgMinutes
  | DevPos string
  | DevNeg string
  | PenDayOff nat
  | PenPref nat

datatype cmp = LE | GE | EQ

type_synonym linexpr = "(int \<times> var) list \<times> int"

type_synonym interval = "int \<times> int \<times> int \<times> var"

datatype constr =
    Domain var int int
  | Lin linexpr cmp linexpr
  | LinIf var bool linexpr cmp linexpr
  | NoOverlap "interval list"

text \<open>
  \<open>Domain v lo hi\<close> is \<open>NewIntVar(lo, hi)\<close> (\<open>NewBoolVar\<close> is \<open>Domain v 0 1\<close>), \<open>Lin l c r\<close> is
  \<open>model.Add(l c r)\<close>, \<open>LinIf v True\<close> is \<open>.OnlyEnforceIf(v)\<close> and \<open>LinIf v False\<close> is
  \<open>.OnlyEnforceIf(v.Not())\<close>.  An interval is (start, size, end, presence literal); a
  \<open>NoOverlap\<close> holds when the present intervals are pairwise disjoint.  A sum over no
  variable is 0, so \<open>model.Add(sum([]) == 1)\<close>, which OR-Tools turns into a constraint that
  never holds, is \<open>Lin ([], 0) EQ ([], 1)\<close>.
\<close>

definition eval_lin :: "(var \<Rightarrow> int) \<Rightarrow> linexpr \<Rightarrow> int" where
  "eval_lin val e = sum_list (map (\<lambda>(a, v). a * val v) (fst e)) + snd e"

fun cmp_holds :: "cmp \<Rightarrow> int \<Rightarrow> int \<Rightarrow> bool" where
  "cmp_holds LE a b = (a \<le> b)"
| "cmp_holds GE a b = (a \<ge> b)"
| "cmp_holds EQ a b = (a = b)"

definition present :: "(var \<Rightarrow> int) \<Rightarrow> interval \<Rightarrow> bool" where
  "present val iv = (case iv of (s, z, e, p) \<Rightarrow> val p = 1)"

definition disjoint :: "interval \<Rightarrow> interval \<Rightarrow> bool" where
  "disjoint iv jv = (case (iv, jv) of ((s1, z1, e1, p1), (s2, z2, e2, p2)) \<Rightarrow> e1 \<le> s2 \<or> e2 \<le> s1)"

fun no_overlap_ok :: "(var \<Rightarrow> int) \<Rightarrow> interval list \<Rightarrow> bool" where
  "no_overlap_ok val [] = True"
| "no_overlap_ok val (iv # ivs) =
     (list_all (\<lambda>jv. present val iv \<and> present val jv \<longrightarrow> disjoint iv jv) ivs
      \<and> no_overlap_ok val ivs)"

fun sat :: "(var \<Rightarrow> int) \<Rightarrow> constr \<Rightarrow> bool" where
  "sat val (Domain v lo hi) = (lo \<le> val v \<and> val v \<le> hi)"
| "sat val (Lin l c r) = cmp_holds c (eval_lin val l) (eval_lin val r)"
| "sat val (LinIf v pos l c r) =
     (val v = (if pos then 1 else 0) \<longrightarrow> cmp_holds c (eval_lin val l) (eval_lin val r))"
| "sat val (NoOverlap ivs) = no_overlap_ok val ivs"

definition feasible :: "(var \<Rightarrow> int) \<Rightarrow> constr list \<Rightarrow> bool" where
  "feasible val cs = list_all (sat val) cs"

definition var1 :: "var \<Rightarrow> linexpr" where
  "var1 v = ([(1, v)], 0)"

definition const :: "int \<Rightarrow> linexpr" where
  "const n = ([], n)"

definition sum_vars :: "var list \<Rightarrow> linexpr" where
  "sum_vars vs = (map (\<lambda>v. (1, v)) vs, 0)"

subsection \<open>Decision variables\<close>

type_synonym x_item = "elig_tuple \<times> nat"

definition x_items :: "elig_tuple list \<Rightarrow> x_item list" where
  \<comment> \<open>the dictionary \<open>x\<close>: a tuple that occurs again keeps its place and takes the later variable\<close>
  "x_items el = fold (\<lambda>(i, k). dict_update k (\<lambda>old. i)) (zip [0..<length el] el) []"

definition k_crew :: "x_item \<Rightarrow> string" where
  "k_crew it = (case it of ((c, f, r, s), i) \<Rightarrow> c)"

definition k_flight :: "x_item \<Rightarrow> string" where
  "k_flight it = (case it of ((c, f, r, s), i) \<Rightarrow> f)"

definition k_role :: "x_item \<Rightarrow> string" where
  "k_role it = (case it of ((c, f, r, s), i) \<Rightarrow> r)"

definition k_slot :: "x_item \<Rightarrow> nat" where
  "k_slot it = (case it of ((c, f, r, s), i) \<Rightarrow> s)"

definition k_var :: "x_item \<Rightarrow> var" where
  "k_var it = X (snd it)"

text \<open>
  The lookups by id below are \<open>bundle.flights_by_id[f_id]\<close>, \<open>bundle.crew_by_id[c_id]\<close>,
  \<open>elig.minutes_by_flight[f_id]\<close> and \<open>elig.day_by_flight[f_id]\<close>.  The model is built on the
  eligibility bundle of the same data, whose tuples all come from \<open>bundle.flights\<close> and
  \<open>bundle.crew\<close>, so no lookup fails.
\<close>

definition the_flight :: "data_bundle \<Rightarrow> string \<Rightarrow> flight" where
  "the_flight b fid = the (flights_by_id b fid)"

definition interval_of :: "data_bundle \<Rightarrow> nat \<Rightarrow> elig_tuple \<Rightarrow> interval" where
  "interval_of b i k =
     (case k of (c, fid, r, s) \<Rightarrow>
        let f = the_flight b fid;
            start = dep_dt f;
            size_sec = (arr_dt f - start) + turnaround_minutes (rules b) * 60
        in (start, size_sec, start + size_sec, X i))"

definition decision_vars :: "elig_tuple list \<Rightarrow> constr list" where
  "decision_vars el = map (\<lambda>i. Domain (X i) 0 1) [0..<length el]"

definition intervals_by_crew :: "data_bundle \<Rightarrow> elig_tuple list \<Rightarrow> (string \<times> interval list) list" where
  "intervals_by_crew b el =
     fold (\<lambda>(i, k). dict_update (fst k) (list_append (interval_of b i k))) (zip [0..<length el] el) []"

definition crew_ids :: "data_bundle \<Rightarrow> string list" where
  \<comment> \<open>\<open>{c.crew_id for c in bundle.crew}\<close>, in some order\<close>
  "crew_ids b = remdups (map crew_id (crew b))"

subsection \<open>Coverage, one seat per flight, composition, no overlap\<close>

definition slot_items :: "role_slot \<Rightarrow> x_item list \<Rightarrow> x_item list" where
  \<comment> \<open>the entries of \<open>x\<close> with \<open>f == rs.flight_id and r == rs.role and s == rs.slot_index\<close>\<close>
  "slot_items rs items =
     filter (\<lambda>it. k_flight it = rs_flight_id rs \<and> k_role it = rs_role rs
                   \<and> k_slot it = slot_index rs) items"

definition coverage_constraints :: "role_slot list \<Rightarrow> x_item list \<Rightarrow> constr list" where
  "coverage_constraints slots items =
     map (\<lambda>rs. Lin (sum_vars (map k_var (slot_items rs items))) EQ (const 1)) slots"

definition pair_items :: "string \<Rightarrow> string \<Rightarrow> x_item list \<Rightarrow> x_item list" where
  \<comment> \<open>the entries of \<open>x\<close> of one crew on one flight\<close>
  "pair_items c_id f_id items = filter (\<lambda>it. k_crew it = c_id \<and> k_flight it = f_id) items"

definition seat_constraints :: "data_bundle \<Rightarrow> x_item list \<Rightarrow> constr list" where
  "seat_constraints b items =
     concat (map (\<lambda>c_id.
       map (\<lambda>f_id. Lin (sum_vars (map k_var (pair_items c_id f_id items))) LE (const 1))
           (remdups (map k_flight (filter (\<lambda>it. k_crew it = c_id) items))))
       (crew_ids b))"

definition dict_get :: "(string \<rightharpoonup> int) \<Rightarrow> string \<Rightarrow> int \<Rightarrow> int" where
  "dict_get d k dflt = (case d k of None \<Rightarrow> dflt | Some v \<Rightarrow> v)"

definition composition_constraints :: "data_bundle \<Rightarrow> x_item list \<Rightarrow> constr list" where
  "composition_constraints b items =
     (let exp_min = dict_get (composition_sccm (rules b)) ''experience_min_months'' 12;
          min_sccm_ulh = dict_get (composition_sccm (rules b)) ''min_sccm_ulh'' 2;
          ulh_thr = ulh_ft_threshold_hours (rules b)
      in concat (map (\<lambda>f.
           if needed_cc f + needed_sc f > 1 then
             (let sc_vars = filter (\<lambda>it. k_flight it = flight_id f \<and> k_role it = ''SC'') items;
                  sccm_cc_vars =
                    filter (\<lambda>it. k_flight it = flight_id f \<and> k_role it = ''CC''
                                  \<and> sccm_certified (the (crew_by_id b (k_crew it)))
                                  \<and> experience_months (the (crew_by_id b (k_crew it))) \<ge> exp_min) items;
                  sccm_vars = sc_vars @ sccm_cc_vars
              in if sccm_vars \<noteq> [] then
                   [Lin (sum_vars (map k_var sccm_vars)) GE
                      (const (if real_of_int (duration_minutes f) / 60 > ulh_thr
                              then max 1 min_sccm_ulh else 1))]
                 else [])
           else []) (flights b)))"

definition no_overlap_constraints :: "data_bundle \<Rightarrow> elig_tuple list \<Rightarrow> constr list" where
  "no_overlap_constraints b el =
     map (\<lambda>(c_id, iv_list). NoOverlap iv_list)
       (filter (\<lambda>(c_id, iv_list). iv_list \<noteq> []) (intervals_by_crew b el))"

subsection \<open>Minimum rest and location continuity\<close>

definition crew_flights :: "data_bundle \<Rightarrow> x_item list \<Rightarrow> string \<Rightarrow> (string \<times> flight) list" where
  \<comment> \<open>the distinct flights of the variables of a crew, sorted by departure\<close>
  "crew_flights b items c_id =
     sort_key (\<lambda>p. dep_dt (snd p))
       (map (\<lambda>fid. (fid, the_flight b fid))
          (uniq (map k_flight (filter (\<lambda>it. k_crew it = c_id) items))))"

definition exclude_pair :: "x_item list \<Rightarrow> string \<Rightarrow> string \<Rightarrow> string \<Rightarrow> constr list" where
  \<comment> \<open>\<open>var1 + var2 <= 1\<close> for every variable of the crew on the first flight and every one
      on the second\<close>
  "exclude_pair items c_id f1_id f2_id =
     concat (map (\<lambda>v1. map (\<lambda>v2. Lin ([(1, v1), (1, v2)], 0) LE (const 1))
                          (map k_var (pair_items c_id f2_id items)))
                 (map k_var (pair_items c_id f1_id items)))"

definition adjacent :: "'a list \<Rightarrow> ('a \<times> 'a) list" where
  \<comment> \<open>the pairs \<open>(xs[i], xs[i + 1])\<close> for \<open>i\<close> in \<open>range(len(xs) - 1)\<close>\<close>
  "adjacent xs = zip xs (tl xs)"

definition rest_constraints :: "data_bundle \<Rightarrow> elig_tuple list \<Rightarrow> x_item list \<Rightarrow> constr list" where
  "rest_constraints b el items =
     (let min_rest_seconds = min_rest_hours_between_duties (rules b) * 3600 in
      concat (map (\<lambda>c_id.
        concat (map (\<lambda>((f1_id, f1), (f2_id, f2)).
                  if dep_dt f2 - arr_dt f1 < min_rest_seconds
                  then exclude_pair items c_id f1_id f2_id else [])
                (adjacent (crew_flights b items c_id))))
        (map fst (intervals_by_crew b el))))"

definition continuity_constraints :: "data_bundle \<Rightarrow> x_item list \<Rightarrow> constr list" where
  "continuity_constraints b items =
     concat (map (\<lambda>c_id.
       concat (map (\<lambda>((f1_id, f1), (f2_id, f2)).
                 if arr_airport f1 \<noteq> dep_airport f2
                 then exclude_pair items c_id f1_id f2_id else [])
               (adjacent (crew_flights b items c_id))))
       (crew_ids b))"

subsection \<open>Night duties\<close>

datatype py_error = ValueError | IndexError

definition window_times :: "int \<times> int \<Rightarrow> py_error + int \<times> int" where
  \<comment> \<open>\<open>night_window_times\<close> and \<open>wocl_window_times\<close>:
      \<open>time(hour=m // 60, minute=m % 60)\<close> raises unless the hour is in 0..23\<close>
  "window_times w =
     (case w of (start_min, end_min) \<Rightarrow>
        if 0 \<le> start_min \<and> start_min < 1440 \<and> 0 \<le> end_min \<and> end_min < 1440
        then Inr (start_min * 60, end_min * 60) else Inl ValueError)"

definition wocl_len_minutes :: "rules \<Rightarrow> int" where
  "wocl_len_minutes r =
     (case wocl_window r of (w_s, w_e) \<Rightarrow> if w_e \<ge> w_s then w_e - w_s else 24 * 60 - (w_s - w_e))"

fun consecutive_run :: "int \<Rightarrow> (flight \<times> var) list \<Rightarrow> var list" where
  \<comment> \<open>the inner loop over \<open>j\<close>: the variables of the flights on consecutive dates from
      \<open>current_date\<close> on, up to the first flight that is not on the expected date\<close>
  "consecutive_run current_date [] = []"
| "consecutive_run current_date ((f, v) # rest) =
     (if date_of (dep_dt f) = current_date
      then v # consecutive_run (date_of (dep_dt f) + 1) rest else [])"

definition night_constraints :: "data_bundle \<Rightarrow> x_item list \<Rightarrow> int \<times> int \<Rightarrow> constr list" where
  \<comment> \<open>called with \<open>max_consecutive_night_duties \<ge> 1\<close>; with a smaller value the loop over
      \<open>i\<close> reads \<open>night_assignments[len(night_assignments)]\<close> and raises\<close>
  "night_constraints b items night =
     (let maxc = nat (max_consecutive_night_duties (rules b)) in
      concat (map (\<lambda>c_id.
        (let night_assignments =
               map (\<lambda>it. (the_flight b (k_flight it), k_var it))
                 (filter (\<lambda>it. k_crew it = c_id
                              \<and> in_night_window (dep_dt (the_flight b (k_flight it)))
                                    (arr_dt (the_flight b (k_flight it))) (fst night) (snd night)) items);
             sorted_nights = sort_key (\<lambda>p. dep_dt (fst p)) night_assignments
         in (if night_assignments \<noteq> []
             then [Lin (sum_vars (map snd night_assignments)) LE
                     (const (max_overnight_duties_per_week (rules b)))]
             else [])
          @ (if length night_assignments \<ge> maxc
             then concat (map (\<lambda>i.
                    (let consecutive_vars =
                           consecutive_run (date_of (dep_dt (fst (sorted_nights ! i))))
                             (take (maxc + 1) (drop i sorted_nights))
                     in if length consecutive_vars \<ge> maxc
                        then [Lin (sum_vars (take (maxc + 1) consecutive_vars)) LE
                                (const (max_consecutive_night_duties (rules b)))]
                        else []))
                  [0..<length night_assignments - maxc + 1])
             else [])))
        (crew_ids b)))"

subsection \<open>Daily caps, landings, WOCL reduction, weekly overtime\<close>

definition assignment_minutes :: "eligibility_bundle \<Rightarrow> x_item \<Rightarrow> int" where
  \<comment> \<open>\<open>mins = int(max(1, elig.minutes_by_flight[f_id]))\<close>\<close>
  "assignment_minutes elig it = max 1 (the (minutes_by_flight elig (k_flight it)))"

definition total_terms :: "eligibility_bundle \<Rightarrow> x_item list \<Rightarrow> string \<Rightarrow> (int \<times> var) list" where
  "total_terms elig items c_id =
     map (\<lambda>it. (assignment_minutes elig it, k_var it)) (filter (\<lambda>it. k_crew it = c_id) items)"

definition day_items :: "eligibility_bundle \<Rightarrow> x_item list \<Rightarrow> string \<Rightarrow> string \<Rightarrow> x_item list" where
  "day_items elig items c_id d =
     filter (\<lambda>it. k_crew it = c_id \<and> the (day_by_flight elig (k_flight it)) = d) items"

definition d_terms :: "eligibility_bundle \<Rightarrow> x_item list \<Rightarrow> string \<Rightarrow> string \<Rightarrow> (int \<times> var) list" where
  "d_terms elig items c_id d =
     map (\<lambda>it. (assignment_minutes elig it, k_var it)) (day_items elig items c_id d)"

definition day_constraints ::
  "data_bundle \<Rightarrow> eligibility_bundle \<Rightarrow> x_item list \<Rightarrow> int \<times> int \<Rightarrow> nat \<Rightarrow> crew \<Rightarrow> string \<Rightarrow> constr list" where
  "day_constraints b elig items wocl ci c d =
     (let c_id = crew_id c;
          daily_cap_minutes = daily_cap_for_role (rules b) (role_key (role c)) * 60;
          dvar = DayMinutes ci d;
          fcnt = FlightCount ci d;
          start_wocl_count = WoclStartCount ci d;
          overlap_wocl_count = WoclOverlapCount ci d;
          its = day_items elig items c_id d;
          start_wocl_terms =
            filter (\<lambda>it. in_window (fst wocl) (snd wocl) (time_of (dep_dt (the_flight b (k_flight it))))) its;
          overlap_wocl_terms =
            filter (\<lambda>it. in_night_window (dep_dt (the_flight b (k_flight it)))
                            (arr_dt (the_flight b (k_flight it))) (fst wocl) (snd wocl)) its;
          th1 = 8 * 60;
          th2 = 11 * 60;
          red_full = min daily_cap_minutes (wocl_len_minutes (rules b));
          red_half = min daily_cap_minutes (wocl_len_minutes (rules b) div 2)
      in [Domain dvar 0 1000000, Domain fcnt 0 1000000,
          Domain start_wocl_count 0 1000000, Domain overlap_wocl_count 0 1000000,
          Lin (var1 dvar) EQ (d_terms elig items c_id d, 0),
          Lin (var1 fcnt) EQ (sum_vars (map k_var its)),
          Lin (var1 start_wocl_count) EQ (sum_vars (map k_var start_wocl_terms)),
          Lin (var1 overlap_wocl_count) EQ (sum_vars (map k_var overlap_wocl_terms)),
          Lin (var1 dvar) LE (const daily_cap_minutes),
          Lin (var1 fcnt) LE (const 6),
          Domain (BLe8 ci d) 0 1, Domain (B8to11 ci d) 0 1, Domain (BGt11 ci d) 0 1,
          Lin (sum_vars [BLe8 ci d, B8to11 ci d, BGt11 ci d]) EQ (const 1),
          LinIf (BLe8 ci d) True (var1 dvar) LE (const th1),
          LinIf (BLe8 ci d) False (var1 dvar) GE (const (th1 + 1)),
          LinIf (B8to11 ci d) True (var1 dvar) GE (const (th1 + 1)),
          LinIf (B8to11 ci d) True (var1 dvar) LE (const th2),
          LinIf (BGt11 ci d) False (var1 dvar) LE (const th2),
          LinIf (BGt11 ci d) True (var1 dvar) GE (const (th2 + 1)),
          LinIf (BLe8 ci d) True (var1 fcnt) LE (const 6),
          LinIf (B8to11 ci d) True (var1 fcnt) LE (const 3),
          LinIf (BGt11 ci d) True (var1 fcnt) LE (const 1),
          Domain (WoclStartInd ci d) 0 1, Domain (WoclOverlapInd ci d) 0 1,
          LinIf (WoclStartInd ci d) True (var1 start_wocl_count) GE (const 1),
          LinIf (WoclStartInd ci d) False (var1 start_wocl_count) EQ (const 0),
          LinIf (WoclOverlapInd ci d) True (var1 overlap_wocl_count) GE (const 1),
          LinIf (WoclOverlapInd ci d) False (var1 overlap_wocl_count) EQ (const 0),
          LinIf (WoclStartInd ci d) True (var1 dvar) LE (const (daily_cap_minutes - red_full)),
          LinIf (WoclOverlapInd ci d) True (var1 dvar) LE (const (daily_cap_minutes - red_half))])"

definition crew_constraints ::
  "data_bundle \<Rightarrow> eligibility_bundle \<Rightarrow> x_item list \<Rightarrow> int \<times> int \<Rightarrow> nat \<times> crew \<Rightarrow> constr list" where
  "crew_constraints b elig items wocl p =
     (case p of (ci, c) \<Rightarrow>
        let wk_cap = (case weekly_max_duty_hrs c of
                        None \<Rightarrow> weekly_max_duty_hrs_default (rules b) | Some w \<Rightarrow> w);
            wk_cap_minutes = wk_cap * 60;
            ft7_cap_minutes = dict_get (flight_time_limits (rules b)) ''hours_7_days'' 40 * 60
        in [Domain (Tot ci) 0 10000000,
            Lin (var1 (Tot ci)) EQ (total_terms elig items (crew_id c), 0)]
         @ concat (map (day_constraints b elig items wocl ci c) (operating_days b))
         @ [Domain (Overtime ci) 0 10000000,
            Lin (var1 (Overtime ci)) GE ([(1, Tot ci)], - wk_cap_minutes),
            Lin (var1 (Tot ci)) LE (const ft7_cap_minutes)])"

definition daily_constraints ::
  "data_bundle \<Rightarrow> eligibility_bundle \<Rightarrow> x_item list \<Rightarrow> int \<times> int \<Rightarrow> constr list" where
  "daily_constraints b elig items wocl =
     concat (map (crew_constraints b elig items wocl) (zip [0..<length (crew b)] (crew b)))"

subsection \<open>Base return\<close>

definition base_day_constraints ::
  "data_bundle \<Rightarrow> eligibility_bundle \<Rightarrow> x_item list \<Rightarrow> nat \<Rightarrow> crew \<Rightarrow> string \<Rightarrow> constr list" where
  "base_day_constraints b elig items ci c day_str =
     (let day_flights =
            sort_key (\<lambda>p. dep_dt (fst p))
              (map (\<lambda>it. (the_flight b (k_flight it), k_var it))
                 (filter (\<lambda>it. k_role it \<in> set [''Captain'', ''FO''])
                    (day_items elig items (crew_id c) day_str)))
      in if day_flights = [] then []
         else (case last day_flights of (last_flight, last_var) \<Rightarrow>
                 [Domain (BasePenalty ci day_str) 0 1000,
                  (if arr_airport last_flight \<noteq> base c
                   then Lin (var1 (BasePenalty ci day_str)) GE ([(100, last_var)], 0)
                   else Lin (var1 (BasePenalty ci day_str)) EQ (const 0))]))"

definition base_return_constraints ::
  "data_bundle \<Rightarrow> eligibility_bundle \<Rightarrow> x_item list \<Rightarrow> constr list" where
  "base_return_constraints b elig items =
     concat (map (\<lambda>(ci, c).
       if role_norm c \<in> set [''Captain'', ''FO'']
       then concat (map (base_day_constraints b elig items ci c) (operating_days b))
       else []) (zip [0..<length (crew b)] (crew b)))"

subsection \<open>The model\<close>

definition model_sections ::
  "data_bundle \<Rightarrow> eligibility_bundle \<Rightarrow> int \<times> int \<Rightarrow> int \<times> int \<Rightarrow> constr list" where
  \<comment> \<open>the constraints in the order the function adds them, given the night and WOCL windows\<close>
  "model_sections b elig night wocl =
     (let el = eligible elig; items = x_items el in
      decision_vars el
      @ coverage_constraints (role_slots elig) items
      @ seat_constraints b items
      @ composition_constraints b items
      @ no_overlap_constraints b el
      @ rest_constraints b el items
      @ night_constraints b items night
      @ daily_constraints b elig items wocl
      @ continuity_constraints b items
      @ base_return_constraints b elig items)"

definition build_model_with_constraints :: "data_bundle \<Rightarrow> eligibility_bundle \<Rightarrow> py_error + constr list" where
  "build_model_with_constraints b elig =
     (case window_times (night_duty_window (rules b)) of
        Inl e \<Rightarrow> Inl e
      | Inr night \<Rightarrow>
          (case window_times (wocl_window (rules b)) of
             Inl e \<Rightarrow> Inl e
           | Inr wocl \<Rightarrow>
               if crew b \<noteq> [] \<and> max_consecutive_night_duties (rules b) \<le> 0 then Inl IndexError
               else Inr (model_sections b elig night wocl)))"

text \<open>
  \<open>add_objective\<close> adds constraints of its own before the model is solved: the sum of the
  totals, its exact quotient by the number of crew, the deviations and the preference
  penalties.  \<open>minutes_total_by_crew\<close> is keyed by crew id and holds the total of the last
  crew record of an id.
\<close>

definition minutes_total_by_crew :: "data_bundle \<Rightarrow> (string \<times> nat) list" where
  "minutes_total_by_crew b =
     fold (\<lambda>(ci, c). dict_update (crew_id c) (\<lambda>old. ci)) (zip [0..<length (crew b)] (crew b)) []"

definition add_objective :: "data_bundle \<Rightarrow> eligibility_bundle \<Rightarrow> constr list" where
  "add_objective b elig =
     (let totals = minutes_total_by_crew b;
          n = max 1 (int (length totals));
          items = x_items (eligible elig)
      in [Domain SumTotals 0 1000000000,
          Lin (var1 SumTotals) EQ (sum_vars (map (\<lambda>(c_id, ci). Tot ci) totals)),
          Domain AvgMinutes 0 1000000000,
          Lin (var1 SumTotals) EQ ([(n, AvgMinutes)], 0)]
       @ concat (map (\<lambda>(c_id, ci).
           [Domain (DevPos c_id) 0 1000000000, Domain (DevNeg c_id) 0 1000000000,
            Lin ([(1, Tot ci), (- 1, AvgMinutes)], 0) EQ ([(1, DevPos c_id), (- 1, DevNeg c_id)], 0)])
           totals)
       @ concat (map (\<lambda>it.
           (let day_str = the (day_by_flight elig (k_flight it));
                sector = the (sector_by_flight elig (k_flight it))
            in (case prefs b (k_crew it) of
                  None \<Rightarrow> []
                | Some (days_off, pref_sectors) \<Rightarrow>
                    (if day_str \<in> days_off
                     then [Domain (PenDayOff (snd it)) 0 1000000,
                           Lin (var1 (PenDayOff (snd it))) EQ ([(1000, k_var it)], 0)]
                     else [])
                  @ (if pref_sectors \<noteq> {} \<and> sector \<notin> pref_sectors
                     then [Domain (PenPref (snd it)) 0 1000000,
                           Lin (var1 (PenPref (snd it))) EQ ([(1, k_var it)], 0)]
                     else [])))) items))"

definition exact_model :: "data_bundle \<Rightarrow> py_error + constr list" where
  \<comment> \<open>the model that \<open>_run_ortools_optimization\<close> hands to the solver\<close>
  "exact_model b =
     (let elig = build_eligibility b in
      case build_model_with_constraints b elig of
        Inl e \<Rightarrow> Inl e
      | Inr cs \<Rightarrow> Inr (cs @ add_objective b elig))"

definition exact_assignments :: "data_bundle \<Rightarrow> (var \<Rightarrow> int) \<Rightarrow> assignment list" where
  \<comment> \<open>the assignments read back from the solver: the tuples whose variable has value 1\<close>
  "exact_assignments b val =
     map (\<lambda>it. Assignment (k_crew it) (k_flight it) (k_role it))
       (filter (\<lambda>it. val (k_var it) = 1) (x_items (eligible (build_eligibility b))))"

section \<open>Auxiliary notions for the proofs\<close>

text \<open>
  Grouping a list by a key into an insertion-ordered dictionary of lists is what \<open>by_cf\<close>,
  \<open>flights_for_crew\<close>, \<open>crew_schedules\<close> and \<open>intervals_by_crew\<close> all do; \<open>grouped\<close> is the
  closed form of the loop \<open>group_step\<close>.
\<close>

definition group_step :: "('a \<Rightarrow> 'k) \<Rightarrow> ('a \<Rightarrow> 'v option) \<Rightarrow> 'a \<Rightarrow> ('k \<times> 'v list) list \<Rightarrow> ('k \<times> 'v list) list" where
  "group_step k v x d = (case v x of None \<Rightarrow> d | Some y \<Rightarrow> dict_update (k x) (list_append y) d)"

definition grouped :: "('a \<Rightarrow> 'k) \<Rightarrow> ('a \<Rightarrow> 'v option) \<Rightarrow> 'a list \<Rightarrow> ('k \<times> 'v list) list" where
  "grouped k v xs =
     map (\<lambda>c. (c, List.map_filter v (filter (\<lambda>x. k x = c) xs)))
       (uniq (map k (filter (\<lambda>x. v x \<noteq> None) xs)))"

text \<open>The distinct flight ids of a crew in a solution, in the order of their first occurrence.\<close>

definition flight_ids_of :: "assignment list \<Rightarrow> string \<Rightarrow> string list" where
  "flight_ids_of sol cid = uniq (map a_flight_id (filter (\<lambda>a. a_crew_id a = cid) sol))"

text \<open>An assignment survives the repair when its flight is on the kept chain of its crew.\<close>

definition kept_flight :: "optimizer \<Rightarrow> assignment list \<Rightarrow> assignment \<Rightarrow> bool" where
  "kept_flight st sol a \<longleftrightarrow>
     a_flight_id a \<in> flight_id ` set (keep_chain None (crew_route st sol (a_crew_id a)))"


text \<open>An eligible tuple belongs to a role slot when flight, role and slot index agree.\<close>

definition slot_of_tuple :: "role_slot \<Rightarrow> elig_tuple \<Rightarrow> bool" where
  "slot_of_tuple rs t = (case t of (c, f, r, s) \<Rightarrow> f = rs_flight_id rs \<and> r = rs_role rs \<and> s = slot_index rs)"

text \<open>Every crew id and flight id of an individual is found by the \<open>next(...)\<close> lookups of the fitness.\<close>

definition lookups_ok :: "optimizer \<Rightarrow> assignment list \<Rightarrow> bool" where
  "lookups_ok st sol \<longleftrightarrow>
     list_all (\<lambda>a. next_crew st (a_crew_id a) \<noteq> None \<and> next_flight st (a_flight_id a) \<noteq> None) sol"

section \<open>Example data\<close>

text \<open>
  One day (2025-09-08, day number 20339) with three A320 flights that need a captain each,
  and two captains.
\<close>

definition ex_rules :: rules where
  "ex_rules =
     \<lparr> daily_max_duty_hrs = [''Captain'' \<mapsto> 10, ''First Officer'' \<mapsto> 10, ''Cabin'' \<mapsto> 11],
       weekly_max_duty_hrs_default = 45,
       min_rest_hours_between_duties = 12,
       max_overnight_duties_per_week = 4,
       turnaround_minutes = 45,
       night_duty_window = (1320, 300),
       max_consecutive_night_duties = 3,
       wocl_window = (120, 360),
       flight_time_limits = [''hours_7_days'' \<mapsto> 40],
       composition_sccm = [''min_sccm_ulh'' \<mapsto> 2, ''experience_min_months'' \<mapsto> 12],
       ulh_ft_threshold_hours = 11 \<rparr>"

definition ex_f1 :: flight where
  "ex_f1 = \<lparr> flight_id = ''F1'', dep_airport = ''DEL'', arr_airport = ''BOM'',
             dep_dt = mk_dt 20339 6 0, arr_dt = mk_dt 20339 8 0, aircraft_type = ''A320'',
             needed_captains = 1, needed_fo = 0, needed_sc = 0, needed_cc = 0 \<rparr>"

definition ex_f2 :: flight where
  "ex_f2 = \<lparr> flight_id = ''F2'', dep_airport = ''BOM'', arr_airport = ''GOI'',
             dep_dt = mk_dt 20339 9 0, arr_dt = mk_dt 20339 10 0, aircraft_type = ''A320'',
             needed_captains = 1, needed_fo = 0, needed_sc = 0, needed_cc = 0 \<rparr>"

definition ex_f3 :: flight where
  "ex_f3 = \<lparr> flight_id = ''F3'', dep_airport = ''BOM'', arr_airport = ''DEL'',
             dep_dt = mk_dt 20339 12 0, arr_dt = mk_dt 20339 14 0, aircraft_type = ''A320'',
             needed_captains = 1, needed_fo = 0, needed_sc = 0, needed_cc = 0 \<rparr>"

definition ex_p1 :: crew where
  "ex_p1 = \<lparr> crew_id = ''P1'', name = ''Asha'', role = ''Captain'', base = ''DEL'',
             qualified_types = ''A320|A321'', weekly_max_duty_hrs = Some 40,
             leave_status = ''Available'', sccm_certified = False, experience_months = 120 \<rparr>"

definition ex_p2 :: crew where
  "ex_p2 = \<lparr> crew_id = ''P2'', name = ''Ravi'', role = ''Captain'', base = ''BOM'',
             qualified_types = ''A320'', weekly_max_duty_hrs = None,
             leave_status = ''Available'', sccm_certified = False, experience_months = 90 \<rparr>"

definition ex_bundle :: data_bundle where
  "ex_bundle = \<lparr> flights = [ex_f1, ex_f2, ex_f3], crew = [ex_p1, ex_p2], rules = ex_rules,
                 sickness_days = Map.empty, prefs = Map.empty \<rparr>"

definition ex_sick_bundle :: data_bundle where
  \<comment> \<open>the same data with captain P1 reported sick on the day of the flights\<close>
  "ex_sick_bundle = ex_bundle\<lparr> sickness_days := [''P1'' \<mapsto> {''2025-09-08''}] \<rparr>"

text \<open>
  A solution of the exact model of \<open>ex_bundle\<close>: P1 flies F1 and F3, P2 flies F2.  The
  variables \<open>X 0 .. X 5\<close> are those of (P1, F1), (P2, F1), (P1, F2), (P2, F2), (P1, F3), (P2, F3).
\<close>

fun ex_val :: "var \<Rightarrow> int" where
  "ex_val (X i) = (if i = 0 \<or> i = 3 \<or> i = 4 then 1 else 0)"
| "ex_val (Tot ci) = (if ci = 0 then 240 else 60)"
| "ex_val (DayMinutes ci d) = (if ci = 0 then 240 else 60)"
| "ex_val (FlightCount ci d) = (if ci = 0 then 2 else 1)"
| "ex_val (BLe8 ci d) = 1"
| "ex_val SumTotals = 300"
| "ex_val AvgMinutes = 150"
| "ex_val (DevPos c) = (if c = ''P1'' then 90 else 0)"
| "ex_val (DevNeg c) = (if c = ''P2'' then 90 else 0)"
| "ex_val v = 0"

text \<open>The dictionary \<open>x\<close> of the exact model of \<open>ex_bundle\<close>.\<close>

definition ex_items :: "x_item list" where
  "ex_items =
     [((''P1'', ''F1'', ''Captain'', 0), 0), ((''P2'', ''F1'', ''Captain'', 0), 1),
      ((''P1'', ''F2'', ''Captain'', 0), 2), ((''P2'', ''F2'', ''Captain'', 0), 3),
      ((''P1'', ''F3'', ''Captain'', 0), 4), ((''P2'', ''F3'', ''Captain'', 0), 5)]"

definition ex_model :: "constr list" where
  "ex_model =
     model_sections ex_bundle (build_eligibility ex_bundle) (79200, 18000) (7200, 21600)
     @ add_objective ex_bundle (build_eligibility ex_bundle)"

text \<open>A genetic engine with one flight that needs two cabin crew and a single cabin crew member.\<close>

definition ex_g1 :: flight where
  "ex_g1 = \<lparr> flight_id = ''G1'', dep_airport = ''DEL'', arr_airport = ''BOM'',
             dep_dt = mk_dt 20339 6 0, arr_dt = mk_dt 20339 8 0, aircraft_type = ''A320'',
             needed_captains = 0, needed_fo = 0, needed_sc = 0, needed_cc = 2 \<rparr>"

definition ex_k1 :: ga_crew where
  "ex_k1 = \<lparr> g_crew_id = ''K1'', g_name = ''Mira'', g_role = ''Cabin Crew'', g_base = ''BOM'',
             g_qualified_types = [''A320''], g_weekly_max_duty_hrs = 40, available = True,
             g_sccm_certified = False, g_experience_months = 30 \<rparr>"

definition ex_optimizer :: optimizer where
  "ex_optimizer = \<lparr> g_flights = [ex_g1], g_crew = [ex_k1], baseline_pairs = {},
                    exclude_crew = {}, exclude_flights = {},
                    w_ot = 100, w_fair = 10, w_base = 50, w_continuity = 75, w_stability = 300 \<rparr>"

text \<open>A genetic engine with two flights that do not connect, for the repair.\<close>

definition ex_h1 :: flight where
  "ex_h1 = \<lparr> flight_id = ''H1'', dep_airport = ''DEL'', arr_airport = ''BOM'',
             dep_dt = mk_dt 20339 6 0, arr_dt = mk_dt 20339 8 0, aircraft_type = ''A320'',
             needed_captains = 1, needed_fo = 0, needed_sc = 0, needed_cc = 0 \<rparr>"

definition ex_h2 :: flight where
  "ex_h2 = \<lparr> flight_id = ''H2'', dep_airport = ''DEL'', arr_airport = ''GOI'',
             dep_dt = mk_dt 20339 8 30, arr_dt = mk_dt 20339 10 0, aircraft_type = ''A320'',
             needed_captains = 1, needed_fo = 0, needed_sc = 0, needed_cc = 0 \<rparr>"

definition ex_k2 :: ga_crew where
  "ex_k2 = \<lparr> g_crew_id = ''K2'', g_name = ''Dev'', g_role = ''Captain'', g_base = ''DEL'',
             g_qualified_types = [''A320''], g_weekly_max_duty_hrs = 40, available = True,
             g_sccm_certified = False, g_experience_months = 200 \<rparr>"

definition ex_optimizer2 :: optimizer where
  "ex_optimizer2 = \<lparr> g_flights = [ex_h1, ex_h2], g_crew = [ex_k2], baseline_pairs = {},
                     exclude_crew = {}, exclude_flights = {},
                     w_ot = 100, w_fair = 10, w_base = 50, w_continuity = 75, w_stability = 300 \<rparr>"

definition ex_a1 :: assignment where
  "ex_a1 = Assignment ''K1'' ''G1'' ''Cabin Crew''"

definition ex_b1 :: assignment where
  "ex_b1 = Assignment ''K2'' ''H1'' ''Captain''"

definition ex_b2 :: assignment where
  "ex_b2 = Assignment ''K2'' ''H2'' ''Captain''"

text \<open>A flight that needs a first officer, with the two captains as the only crew.\<close>

definition ex_nofo_bundle :: data_bundle where
  "ex_nofo_bundle = ex_bundle\<lparr> flights := [ex_f1\<lparr> needed_fo := 1 \<rparr>] \<rparr>"

definition ex_nofo_model :: "constr list" where
  "ex_nofo_model =
     model_sections ex_nofo_bundle (build_eligibility ex_nofo_bundle) (79200, 18000) (7200, 21600)
     @ add_objective ex_nofo_bundle (build_eligibility ex_nofo_bundle)"


text \<open>
  The flight F1 with two captain seats and the two captains, and a valuation that chooses
  the single tuple (P1, F1, Captain, 0).
\<close>

definition ex_two_bundle :: data_bundle where
  "ex_two_bundle = ex_bundle\<lparr> flights := [ex_f1\<lparr> needed_captains := 2 \<rparr>] \<rparr>"

definition ex_two_model :: "constr list" where
  "ex_two_model =
     model_sections ex_two_bundle (build_eligibility ex_two_bundle) (79200, 18000) (7200, 21600)
     @ add_objective ex_two_bundle (build_eligibility ex_two_bundle)"

definition ex_single_val :: "var \<Rightarrow> int" where
  "ex_single_val v = (if v = X 0 then 1 else 0)"

text \<open>
  A baseline of five entries: two are kept under the exclusions used below, one is of an
  excluded crew member, one is on an excluded flight, and one has no flight id.
\<close>

definition ex_baseline :: "baseline_entry list" where
  "ex_baseline =
     [(Some ''K1'', Some ''G1'', Some ''Cabin Crew''), (Some ''K2'', Some ''G2'', Some ''Captain''),
      (Some ''K7'', Some ''G1'', Some ''Captain''), (Some ''K3'', Some ''G9'', Some ''FO''),
      (Some ''K1'', None, Some ''Cabin Crew'')]"

section \<open>Properties\<close>

lemma find_append: "find P (xs @ ys) = (case find P xs of None \<Rightarrow> find P ys | Some x \<Rightarrow> Some x)"
  by (induction xs) auto

lemma fold_upd_find:
  "fold (\<lambda>f m. m(k f \<mapsto> v f)) xs m0 x =
     (case find (\<lambda>f. k f = x) (rev xs) of None \<Rightarrow> m0 x | Some f \<Rightarrow> Some (v f))"
proof (induction xs arbitrary: m0)
  case Nil
  then show ?case by simp
next
  case (Cons a xs)
  show ?case
    using Cons.IH [of "m0(k a \<mapsto> v a)"]
    by (simp add: find_append split: option.splits)
qed

text \<open>
  Claim C9, as amended.  \<open>role_key\<close> is total with four possible results, and every input
  whose form without leading and trailing white space is not one of the eight recognized
  First Officer, Senior Crew and Cabin Crew spellings is mapped to \<open>Captain\<close>.
\<close>

theorem role_key_total:
  "role_key raw \<in> {''Captain'', ''FO'', ''SC'', ''CC''}
   \<and> (strip raw \<notin> set [''FO'', ''First Officer'', ''Senior Crew'', ''Senior Cabin Crew'', ''SC'',
                         ''Junior Cabin Crew'', ''Cabin Crew'', ''CC'']
        \<longrightarrow> role_key raw = ''Captain'')
   \<and> (role_key raw = ''Captain''
        \<longrightarrow> strip raw \<notin> set [''FO'', ''First Officer'', ''Senior Crew'', ''Senior Cabin Crew'', ''SC'',
                              ''Junior Cabin Crew'', ''Cabin Crew'', ''CC''])"
  by (simp add: role_key_def Let_def)

text \<open>
  The unknown role name \<open>Purser\<close> and the empty string are both mapped to \<open>Captain\<close>.
\<close>

theorem role_key_total_witness:
  "strip ''Purser'' \<notin> set [''FO'', ''First Officer'', ''Senior Crew'', ''Senior Cabin Crew'', ''SC'',
                         ''Junior Cabin Crew'', ''Cabin Crew'', ''CC'']
   \<and> role_key ''Purser'' = ''Captain'' \<and> role_key [] = ''Captain''"
  using role_key_total [of "''Purser''"] role_key_total [of "[]"]
  by (simp add: strip_def py_isspace_def)

text \<open>
  Claim C9 as stated fails: the string \<open>FO\<close> with a leading blank is not one of the
  recognized spellings, and it is not mapped to \<open>Captain\<close>, because the input is stripped
  before it is compared.
\<close>

theorem role_key_padded_counterexample:
  "'' FO'' \<notin> set [''FO'', ''First Officer'', ''Senior Crew'', ''Senior Cabin Crew'', ''SC'',
                         ''Junior Cabin Crew'', ''Cabin Crew'', ''CC'']
   \<and> role_key '' FO'' \<noteq> ''Captain''"
  by (simp add: role_key_def strip_def py_isspace_def)

text \<open>
  Claim C8.  A flight from 01:00 to 07:00 on one day contains the whole window 02:00 to
  06:00, so a portion of it lies in the window, yet \<open>in_night_window\<close> answers \<open>False\<close>:
  neither end of the flight has its time of day in the window, and the window does not wrap.
\<close>

theorem in_night_window_misses_contained_window:
  "\<not> in_night_window (mk_dt 20339 1 0) (mk_dt 20339 7 0) (2 * 3600) (6 * 3600)
   \<and> some_portion_in_window (mk_dt 20339 1 0) (mk_dt 20339 7 0) (2 * 3600) (6 * 3600)"
proof -
  have "mk_dt 20339 1 0 \<le> mk_dt 20339 3 0 \<and> mk_dt 20339 3 0 \<le> mk_dt 20339 7 0
        \<and> in_window (2 * 3600) (6 * 3600) (time_of (mk_dt 20339 3 0))"
    by (simp add: mk_dt_def in_window_def time_of_def)
  then have "some_portion_in_window (mk_dt 20339 1 0) (mk_dt 20339 7 0) (2 * 3600) (6 * 3600)"
    unfolding some_portion_in_window_def by blast
  moreover have "\<not> in_night_window (mk_dt 20339 1 0) (mk_dt 20339 7 0) (2 * 3600) (6 * 3600)"
    by (simp add: in_night_window_def in_window_def mk_dt_def time_of_def date_of_def)
  ultimately show ?thesis by simp
qed

text \<open>
  The other direction holds: when the function answers \<open>True\<close> on an interval with
  \<open>dep \<le> arr\<close>, some instant of the interval is in the window.
\<close>

lemma in_night_window_sound:
  assumes "in_night_window dep arr s e" and "dep \<le> arr" and "s < 86400"
  shows "some_portion_in_window dep arr s e"
proof -
  consider "in_window s e (time_of dep)" | "in_window s e (time_of arr)"
    | "s > e" "date_of dep \<noteq> date_of arr"
    using assms(1) by (auto simp: in_night_window_def Let_def)
  then show ?thesis
  proof cases
    case 1
    then show ?thesis using assms(2) unfolding some_portion_in_window_def by blast
  next
    case 2
    then show ?thesis using assms(2) unfolding some_portion_in_window_def by blast
  next
    case 3
    let ?t = "(date_of dep + 1) * 86400 - 1"
    have lt: "date_of dep < date_of arr"
      using 3(2) assms(2) by (simp add: date_of_def zdiv_mono1 order.strict_iff_order)
    have d1: "dep = 86400 * (dep div 86400) + dep mod 86400" by simp
    have d2: "dep mod 86400 < 86400" by simp
    have a1: "arr = 86400 * (arr div 86400) + arr mod 86400" by simp
    have a2: "0 \<le> arr mod 86400" by simp
    have t: "?t = 86400 * (dep div 86400) + 86399" by (simp add: date_of_def algebra_simps)
    have "dep \<le> ?t" unfolding t using d1 d2 by linarith
    moreover have "?t \<le> arr"
      unfolding t using lt a1 a2 unfolding date_of_def by linarith
    moreover have "time_of ?t = 86399"
    proof -
      have "?t = 86399 + date_of dep * 86400" by simp
      then have "time_of ?t = (86399 + date_of dep * 86400) mod 86400" unfolding time_of_def by simp
      also have "\<dots> = 86399" by simp
      finally show ?thesis .
    qed
    then have "in_window s e (time_of ?t)" using 3(1) assms(3) by (simp add: in_window_def)
    ultimately show ?thesis unfolding some_portion_in_window_def by blast
  qed
qed

lemma fold_baseline_step:
  "fold (baseline_step xc xf) bas S =
     S \<union> {(c, f, r). (Some c, Some f, Some r) \<in> set bas \<and> c \<noteq> [] \<and> f \<noteq> [] \<and> r \<noteq> []
                      \<and> c \<notin> xc \<and> f \<notin> xf}"
proof (induction bas arbitrary: S)
  case Nil
  then show ?case by simp
next
  case (Cons a bas)
  obtain c f r where a: "a = (c, f, r)" by (cases a)
  show ?case
    unfolding fold_Cons comp_def Cons.IH a
    by (cases c; cases f; cases r) (auto simp: baseline_step_def falsy_def)
qed

lemma finite_fold_baseline_step: "finite S \<Longrightarrow> finite (fold (baseline_step xc xf) bas S)"
  by (induction bas arbitrary: S) (auto simp: baseline_step_def split: prod.splits)

text \<open>
  Claim C7, as amended.  After \<open>set_baseline\<close> the retained triples are exactly the baseline
  triples with all three fields present and non-empty whose crew id is not excluded and whose
  flight id is not excluded.  The stability bonus of a solution is the number of retained
  triples (c, f, r) for which the solution holds an assignment of crew c to flight f in role
  r, divided by the number of retained triples, and 0 when none is retained.
\<close>

theorem set_baseline_stability:
  "baseline_pairs (set_baseline st bas xc xf) =
     {(c, f, r). (Some c, Some f, Some r) \<in> set bas \<and> c \<noteq> [] \<and> f \<noteq> [] \<and> r \<noteq> []
                 \<and> c \<notin> xc \<and> f \<notin> xf}
   \<and> calculate_stability_bonus (set_baseline st bas xc xf) sol =
       (if {(c, f, r). (Some c, Some f, Some r) \<in> set bas \<and> c \<noteq> [] \<and> f \<noteq> [] \<and> r \<noteq> []
                       \<and> c \<notin> xc \<and> f \<notin> xf} = {} then 0
        else real (card {(c, f, r). Assignment c f r \<in> set sol
                                    \<and> (Some c, Some f, Some r) \<in> set bas \<and> c \<noteq> [] \<and> f \<noteq> [] \<and> r \<noteq> []
                                    \<and> c \<notin> xc \<and> f \<notin> xf})
               / real (card {(c, f, r). (Some c, Some f, Some r) \<in> set bas \<and> c \<noteq> [] \<and> f \<noteq> [] \<and> r \<noteq> []
                                        \<and> c \<notin> xc \<and> f \<notin> xf}))"
proof -
  let ?bp = "baseline_pairs (set_baseline st bas xc xf)"
  let ?R = "{(c, f, r). (Some c, Some f, Some r) \<in> set bas \<and> c \<noteq> [] \<and> f \<noteq> [] \<and> r \<noteq> []
                 \<and> c \<notin> xc \<and> f \<notin> xf}"
  have bp: "?bp = fold (baseline_step xc xf) bas {}" by (simp add: set_baseline_def)
  have fin: "finite ?bp" unfolding bp by (rule finite_fold_baseline_step) simp
  have R: "?bp = ?R" unfolding bp fold_baseline_step by simp
  have mx: "?bp \<noteq> {} \<Longrightarrow> max 1 (card ?bp) = card ?bp"
    using fin by (simp add: card_gt_0_iff max_def Suc_leI)
  have sp: "sol_pairs sol = {(c, f, r). Assignment c f r \<in> set sol}"
  proof (rule set_eqI)
    fix t :: "string \<times> string \<times> string"
    obtain c f r where t: "t = (c, f, r)" by (cases t)
    have "(\<exists>a \<in> set sol. (a_crew_id a, a_flight_id a, a_role a) = (c, f, r))
            \<longleftrightarrow> Assignment c f r \<in> set sol"
    proof
      assume "\<exists>a \<in> set sol. (a_crew_id a, a_flight_id a, a_role a) = (c, f, r)"
      then obtain a where a: "a \<in> set sol" "a_crew_id a = c" "a_flight_id a = f" "a_role a = r"
        by auto
      from a(2-4) have "a = Assignment c f r" by (cases a) simp
      with a(1) show "Assignment c f r \<in> set sol" by simp
    next
      assume "Assignment c f r \<in> set sol"
      then show "\<exists>a \<in> set sol. (a_crew_id a, a_flight_id a, a_role a) = (c, f, r)"
        by (intro bexI [of _ "Assignment c f r"]) simp_all
    qed
    then show "t \<in> sol_pairs sol \<longleftrightarrow> t \<in> {(c, f, r). Assignment c f r \<in> set sol}"
      unfolding t sol_pairs_def by (auto simp: image_iff)
  qed
  have int: "sol_pairs sol \<inter> ?R = {(c, f, r). Assignment c f r \<in> set sol
                                    \<and> (Some c, Some f, Some r) \<in> set bas \<and> c \<noteq> [] \<and> f \<noteq> [] \<and> r \<noteq> []
                                    \<and> c \<notin> xc \<and> f \<notin> xf}"
    unfolding sp by auto
  have "calculate_stability_bonus (set_baseline st bas xc xf) sol =
       (if ?bp = {} then 0 else real (card (sol_pairs sol \<inter> ?bp)) / real (card ?bp))"
    using mx by (simp add: calculate_stability_bonus_def)
  then show ?thesis unfolding R int by simp
qed

lemma flights_by_id_find:
  "flights_by_id b x = find (\<lambda>f. flight_id f = x) (rev (flights b))"
  by (simp add: flights_by_id_def fold_upd_find split: option.splits)

lemma find_SomeD: "find P xs = Some x \<Longrightarrow> P x \<and> x \<in> set xs"
  by (induction xs) (auto split: if_splits)

lemma flights_by_id_flight_id: "flights_by_id b x = Some f \<Longrightarrow> flight_id f = x \<and> f \<in> set (flights b)"
  unfolding flights_by_id_find by (auto dest: find_SomeD)


lemma day_by_flight_eq:
  "day_by_flight (build_eligibility b) x = map_option (\<lambda>f. flight_day_str (dep_dt f)) (flights_by_id b x)"
  by (simp add: build_eligibility_def Let_def fold_upd_find flights_by_id_find split: option.splits)

lemma minutes_by_flight_eq:
  "minutes_by_flight (build_eligibility b) x = map_option flight_minutes (flights_by_id b x)"
  by (simp add: build_eligibility_def Let_def fold_upd_find flights_by_id_find split: option.splits)

lemma sector_by_flight_eq:
  "sector_by_flight (build_eligibility b) x =
     map_option (\<lambda>f. dep_airport f @ ''-'' @ arr_airport f) (flights_by_id b x)"
  by (simp add: build_eligibility_def Let_def fold_upd_find flights_by_id_find split: option.splits)

lemma eligible_eq:
  "eligible (build_eligibility b) =
     concat (map (eligible_for_slot b (day_by_flight (build_eligibility b))) (build_role_slots b))"
  by (simp add: build_eligibility_def Let_def)

lemma eligible_for_slot_eq:
  "eligible_for_slot b (day_by_flight (build_eligibility b)) slot =
     (case flights_by_id b (rs_flight_id slot) of
        None \<Rightarrow> []
      | Some f \<Rightarrow>
          map (\<lambda>c. (crew_id c, rs_flight_id slot, rs_role slot, slot_index slot))
            (filter (\<lambda>c. crew_role_matches (rs_role slot) (role c)
                        \<and> crew_qualified_for (aircraft_type f) (qualified_types c)
                        \<and> flight_day_str (dep_dt f) \<notin> sick_days_of b (crew_id c)) (crew b)))"
  by (simp add: eligible_for_slot_def day_by_flight_eq crew_can_work_that_day_def split: option.splits)


lemma filter_concat_map: "filter P (concat (map g xs)) = concat (map (\<lambda>x. filter P (g x)) xs)"
  by (induction xs) auto

lemma sick_days_of_cleared [simp]: "sick_days_of (b\<lparr>sickness_days := Map.empty\<rparr>) c = {}"
  by (simp add: sick_days_of_def)

lemma flights_by_id_cleared [simp]: "flights_by_id (b\<lparr>sickness_days := m\<rparr>) = flights_by_id b"
  by (simp add: flights_by_id_def fun_eq_iff)

lemma build_role_slots_cleared [simp]: "build_role_slots (b\<lparr>sickness_days := m\<rparr>) = build_role_slots b"
  by (simp add: build_role_slots_def)

text \<open>
  Claim C6.  When the departure day of the flight that the bundle holds for a flight id is
  among the sick days of a crew id, no eligible tuple pairs that crew with a slot of that
  flight.  Sickness does nothing else: the eligible tuples are those of the same data without
  any sickness, less the tuples whose flight departs on a sick day of their crew.
\<close>

theorem sick_crew_not_eligible:
  "(flights_by_id b fid = Some f \<longrightarrow> flight_day_str (dep_dt f) \<in> sick_days_of b cid
      \<longrightarrow> (cid, fid, r, s) \<notin> set (eligible (build_eligibility b)))
   \<and> eligible (build_eligibility b) =
       filter (\<lambda>(cid, fid, r, s). case flights_by_id b fid of
                                     None \<Rightarrow> True
                                   | Some f \<Rightarrow> flight_day_str (dep_dt f) \<notin> sick_days_of b cid)
         (eligible (build_eligibility (b\<lparr>sickness_days := Map.empty\<rparr>)))"
proof -
  let ?ok = "\<lambda>(cid, fid, r, s). case flights_by_id b fid of
                                     None \<Rightarrow> True
                                   | Some f \<Rightarrow> flight_day_str (dep_dt f) \<notin> sick_days_of b cid"
  have slot: "eligible_for_slot b (day_by_flight (build_eligibility b)) slot =
        filter ?ok (eligible_for_slot (b\<lparr>sickness_days := Map.empty\<rparr>)
                      (day_by_flight (build_eligibility (b\<lparr>sickness_days := Map.empty\<rparr>))) slot)"
    for slot
    unfolding eligible_for_slot_eq
    by (cases "flights_by_id b (rs_flight_id slot)") (auto simp: filter_map comp_def intro: filter_cong)
  have eq: "eligible (build_eligibility b) =
        filter ?ok (eligible (build_eligibility (b\<lparr>sickness_days := Map.empty\<rparr>)))"
    unfolding eligible_eq filter_concat_map build_role_slots_cleared
    by (intro arg_cong [where f = concat] map_cong refl slot)
  have "flights_by_id b fid = Some f \<Longrightarrow> flight_day_str (dep_dt f) \<in> sick_days_of b cid
      \<Longrightarrow> (cid, fid, r, s) \<notin> set (eligible (build_eligibility b))"
    by (subst eq) simp
  with eq show ?thesis by blast
qed

lemma set_uniq [simp]: "set (uniq xs) = set xs"
  by (induction xs rule: uniq.induct) auto

lemma distinct_uniq [simp]: "distinct (uniq xs)"
  by (induction xs rule: uniq.induct) auto

lemma uniq_filter: "uniq (filter P xs) = filter P (uniq xs)"
proof (induction xs rule: uniq.induct)
  case 1
  then show ?case by simp
next
  case (2 x xs)
  have swap: "filter (\<lambda>y. y \<noteq> x) (filter P xs) = filter P (filter (\<lambda>y. y \<noteq> x) xs)"
    by (simp add: conj_commute)
  show ?case
  proof (cases "P x")
    case True
    then have "uniq (filter P (x # xs)) = x # uniq (filter (\<lambda>y. y \<noteq> x) (filter P xs))" by simp
    also have "\<dots> = x # uniq (filter P (filter (\<lambda>y. y \<noteq> x) xs))" by (simp only: swap)
    also have "\<dots> = x # filter P (uniq (filter (\<lambda>y. y \<noteq> x) xs))" by (simp only: 2)
    also have "\<dots> = filter P (uniq (x # xs))" using True by simp
    finally show ?thesis .
  next
    case False
    then have "filter P xs = filter P (filter (\<lambda>y. y \<noteq> x) xs)"
      by (auto intro: filter_cong)
    then show ?thesis using 2 False by simp
  qed
qed

lemma uniq_snoc: "uniq (xs @ [x]) = (if x \<in> set xs then uniq xs else uniq xs @ [x])"
  by (induction xs rule: uniq.induct) auto

lemma uniq_distinct: "distinct xs \<Longrightarrow> uniq xs = xs"
proof (induction xs)
  case Nil
  then show ?case by simp
next
  case (Cons a xs)
  then have "filter (\<lambda>y. y \<noteq> a) xs = xs" by (auto intro: filter_True)
  with Cons show ?case by simp
qed

lemma uniq_map_inj: "inj_on f (set xs) \<Longrightarrow> uniq (map f xs) = map f (uniq xs)"
proof (induction xs rule: uniq.induct)
  case 1
  then show ?case by simp
next
  case (2 x xs)
  have "filter (\<lambda>y. y \<noteq> f x) (map f xs) = map f (filter (\<lambda>y. y \<noteq> x) xs)"
    using "2.prems" by (auto simp: filter_map comp_def inj_on_def intro!: filter_cong arg_cong [where f = "map f"])
  moreover have "inj_on f (set (filter (\<lambda>y. y \<noteq> x) xs))"
    using "2.prems" by (auto simp: inj_on_def)
  ultimately show ?case using "2.IH" by simp
qed

lemma dict_update_map:
  "distinct ks \<Longrightarrow>
   dict_update k g (map (\<lambda>c. (c, F c)) ks) =
     (if k \<in> set ks then map (\<lambda>c. (c, if c = k then g (Some (F k)) else F c)) ks
      else map (\<lambda>c. (c, F c)) ks @ [(k, g None)])"
  by (induction ks) auto

lemma map_filter_append [simp]:
  "List.map_filter v (xs @ ys) = List.map_filter v xs @ List.map_filter v ys"
  by (simp add: List.map_filter_def)

lemma map_filter_Nil_iff: "List.map_filter v xs = [] \<longleftrightarrow> (\<forall>x \<in> set xs. v x = None)"
  by (induction xs) (auto simp: List.map_filter_def)

lemma fold_group: "fold (group_step k v) xs [] = grouped k v xs"
proof (induction xs rule: rev_induct)
  case Nil
  then show ?case by (simp add: grouped_def List.map_filter_def)
next
  case (snoc x xs)
  show ?case
  proof (cases "v x")
    case None
    then show ?thesis using snoc
      by (simp add: group_step_def grouped_def List.map_filter_def)
  next
    case (Some y)
    let ?ks = "uniq (map k (filter (\<lambda>x. v x \<noteq> None) xs))"
    let ?F = "\<lambda>c. List.map_filter v (filter (\<lambda>x. k x = c) xs)"
    have "fold (group_step k v) (xs @ [x]) [] = group_step k v x (fold (group_step k v) xs [])"
      by simp
    also have "\<dots> = group_step k v x (grouped k v xs)" by (simp only: snoc)
    also have "\<dots> = dict_update (k x) (list_append y) (map (\<lambda>c. (c, ?F c)) ?ks)"
      by (simp add: group_step_def Some grouped_def)
    finally have step: "fold (group_step k v) (xs @ [x]) [] = dict_update (k x) (list_append y) (map (\<lambda>c. (c, ?F c)) ?ks)" .
    have none: "?F (k x) = []" if "k x \<notin> set ?ks"
    proof -
      have "v z = None" if "z \<in> set xs" "k z = k x" for z
      proof (rule ccontr)
        assume "v z \<noteq> None"
        then have "z \<in> {x \<in> set xs. v x \<noteq> None}" using that by simp
        then have "k z \<in> k ` {x \<in> set xs. v x \<noteq> None}" by (rule imageI)
        then have "k z \<in> set ?ks" by simp
        then show False using \<open>k x \<notin> set ?ks\<close> that by simp
      qed
      then show ?thesis by (simp add: map_filter_Nil_iff)
    qed
    have F': "List.map_filter v (filter (\<lambda>z. k z = c) (xs @ [x])) = (if c = k x then ?F c @ [y] else ?F c)" for c
      using Some by (auto simp: List.map_filter_def)
    have keys: "map k (filter (\<lambda>x. v x \<noteq> None) (xs @ [x])) = map k (filter (\<lambda>x. v x \<noteq> None) xs) @ [k x]"
      using Some by simp
    have G: "grouped k v (xs @ [x]) =
               map (\<lambda>c. (c, if c = k x then ?F c @ [y] else ?F c))
                 (if k x \<in> set ?ks then ?ks else ?ks @ [k x])"
      unfolding grouped_def F' keys uniq_snoc by simp
    show ?thesis
    proof (cases "k x \<in> set ?ks")
      case True
      then show ?thesis
        unfolding step G by (subst dict_update_map) (simp_all add: list_append_def)
    next
      case False
      then have "\<forall>c \<in> set ?ks. c \<noteq> k x" by blast
      then show ?thesis
        unfolding step G using False none [OF False]
        by (subst dict_update_map) (simp_all add: list_append_def)
    qed
  qed
qed

lemma fst_pair_of [simp]: "fst (pair_of a) = a_crew_id a"
  by (simp add: pair_of_def)

lemma snd_pair_of [simp]: "snd (pair_of a) = a_flight_id a"
  by (simp add: pair_of_def)

lemma by_cf_grouped: "by_cf sol = grouped pair_of Some sol"
proof -
  have "(\<lambda>a. dict_update (pair_of a) (list_append a)) = group_step pair_of Some"
    by (simp add: fun_eq_iff group_step_def)
  then show ?thesis unfolding by_cf_def by (simp add: fold_group)
qed

lemma map_filter_Some [simp]: "List.map_filter Some xs = xs"
  by (simp add: List.map_filter_def)

lemma by_cf_eq:
  "by_cf sol = map (\<lambda>k. (k, filter (\<lambda>a. pair_of a = k) sol)) (uniq (map pair_of sol))"
  by (simp add: by_cf_grouped grouped_def)

lemma flights_for_crew_fold:
  "flights_for_crew st seen d as =
     fold (group_step fst (\<lambda>p. g_flights_by_id st (snd p)))
       (uniq (filter (\<lambda>p. p \<notin> seen) (map pair_of as))) d"
proof (induction as arbitrary: seen d)
  case Nil
  then show ?case by simp
next
  case (Cons a as)
  show ?case
  proof (cases "pair_of a \<in> seen")
    case True
    then show ?thesis by (simp add: Cons.IH)
  next
    case False
    have f: "filter (\<lambda>y. y \<noteq> pair_of a) (filter (\<lambda>p. p \<notin> seen) (map pair_of as))
             = filter (\<lambda>p. p \<notin> insert (pair_of a) seen) (map pair_of as)"
      by (auto intro: filter_cong)
    have u: "uniq (filter (\<lambda>p. p \<notin> seen) (map pair_of (a # as)))
             = pair_of a # uniq (filter (\<lambda>p. p \<notin> insert (pair_of a) seen) (map pair_of as))"
      using False f by simp
    show ?thesis
      unfolding u using False
      by (cases "g_flights_by_id st (a_flight_id a)")
         (simp_all add: Cons.IH group_step_def)
  qed
qed

lemma flights_for_crew_eq:
  "flights_for_crew st {} [] sol =
     grouped fst (\<lambda>p. g_flights_by_id st (snd p)) (uniq (map pair_of sol))"
  by (simp add: flights_for_crew_fold fold_group)

lemma crew_route_eq:
  "crew_route st sol cid = sort_key dep_dt (List.map_filter (g_flights_by_id st) (flight_ids_of sol cid))"
  by (simp add: crew_route_def flight_ids_of_def)

lemma snd_pairs_of_crew:
  "map snd (filter (\<lambda>p. fst p = cid) (uniq (map pair_of sol))) = flight_ids_of sol cid"
proof -
  have "map snd (filter (\<lambda>p. fst p = cid) (uniq (map pair_of sol)))
        = map snd (uniq (filter (\<lambda>p. fst p = cid) (map pair_of sol)))"
    by (simp add: uniq_filter)
  also have "\<dots> = uniq (map snd (filter (\<lambda>p. fst p = cid) (map pair_of sol)))"
    by (rule uniq_map_inj [symmetric]) (auto simp: inj_on_def)
  also have "map snd (filter (\<lambda>p. fst p = cid) (map pair_of sol))
             = map a_flight_id (filter (\<lambda>a. a_crew_id a = cid) sol)"
    by (induction sol) auto
  finally show ?thesis by (simp add: flight_ids_of_def)
qed

lemma map_filter_map: "List.map_filter v (map f xs) = List.map_filter (\<lambda>x. v (f x)) xs"
  by (induction xs) (auto simp: List.map_filter_def)

lemma flights_of_group:
  "List.map_filter (\<lambda>p. g_flights_by_id st (snd p)) (filter (\<lambda>p. fst p = cid) (uniq (map pair_of sol)))
   = List.map_filter (g_flights_by_id st) (flight_ids_of sol cid)"
  unfolding snd_pairs_of_crew [symmetric] map_filter_map ..

lemma kept_pairs_iff:
  "(cid, fid) \<in> kept_pairs (flights_for_crew st {} [] sol)
   \<longleftrightarrow> fid \<in> flight_id ` set (keep_chain None (crew_route st sol cid))"
proof -
  let ?ps = "uniq (map pair_of sol)"
  let ?v = "\<lambda>p. g_flights_by_id st (snd p)"
  let ?ks = "uniq (map fst (filter (\<lambda>x. ?v x \<noteq> None) ?ps))"
  have route: "sort_key dep_dt (List.map_filter ?v (filter (\<lambda>p. fst p = c) ?ps)) = crew_route st sol c" for c
    by (simp add: flights_of_group crew_route_eq)
  define KS where "KS = set ?ks"
  have kp: "kept_pairs (flights_for_crew st {} [] sol)
        = (\<Union>c \<in> KS. (\<lambda>f. (c, flight_id f)) ` set (keep_chain None (crew_route st sol c)))"
    unfolding flights_for_crew_eq grouped_def kept_pairs_def KS_def
    by (simp add: route image_Union comp_def)
  have empty: "crew_route st sol cid = []" if "cid \<notin> set ?ks"
  proof -
    have "?v p = None" if "p \<in> set ?ps" "fst p = cid" for p
    proof (rule ccontr)
      assume "?v p \<noteq> None"
      then have "p \<in> {x \<in> set ?ps. ?v x \<noteq> None}" using that by simp
      then have "fst p \<in> fst ` {x \<in> set ?ps. ?v x \<noteq> None}" by (rule imageI)
      then show False using \<open>cid \<notin> set ?ks\<close> that by simp
    qed
    then have "List.map_filter ?v (filter (\<lambda>p. fst p = cid) ?ps) = []"
      by (simp add: map_filter_Nil_iff)
    then show ?thesis unfolding route [symmetric] by simp
  qed
  show ?thesis
  proof (cases "cid \<in> KS")
    case True
    then show ?thesis unfolding kp by auto
  next
    case False
    then have "crew_route st sol cid = []" using empty by (simp add: KS_def)
    then show ?thesis unfolding kp using False by auto
  qed
qed

lemma pair_kept_iff:
  "pair_of a \<in> kept_pairs (flights_for_crew st {} [] sol) \<longleftrightarrow> kept_flight st sol a"
  using kept_pairs_iff [of "a_crew_id a" "a_flight_id a" st sol]
  by (simp add: pair_of_def kept_flight_def)

lemma repair_eq:
  "repair_solution_continuity st sol =
     concat (map (\<lambda>k. filter (\<lambda>a. pair_of a = k) sol)
       (filter (\<lambda>k. k \<in> kept_pairs (flights_for_crew st {} [] sol)) (uniq (map pair_of sol))))"
  by (simp add: repair_solution_continuity_def by_cf_eq filter_map comp_def Let_def)

lemma uniq_same_prefix:
  "xs \<noteq> [] \<Longrightarrow> \<forall>x \<in> set xs. x = k \<Longrightarrow> uniq (xs @ ys) = k # uniq (filter (\<lambda>y. y \<noteq> k) ys)"
proof (cases xs)
  case Nil
  assume "xs \<noteq> []"
  with Nil show ?thesis by simp
next
  case (Cons x xs')
  assume all: "\<forall>x \<in> set xs. x = k"
  then have "x = k" and "filter (\<lambda>y. y \<noteq> k) xs' = []" using Cons by auto
  then show ?thesis using Cons by simp
qed

lemma regroup_keys:
  "distinct ks \<Longrightarrow> set ks \<subseteq> kf ` set sol \<Longrightarrow>
   uniq (map kf (concat (map (\<lambda>k. filter (\<lambda>a. kf a = k) sol) ks))) = ks"
proof (induction ks)
  case Nil
  then show ?case by simp
next
  case (Cons k ks)
  let ?rest = "concat (map (\<lambda>k. filter (\<lambda>a. kf a = k) sol) ks)"
  have ne: "map kf (filter (\<lambda>a. kf a = k) sol) \<noteq> []"
    using Cons.prems(2) by (auto simp: filter_empty_conv)
  have same: "\<forall>x \<in> set (map kf (filter (\<lambda>a. kf a = k) sol)). x = k" by auto
  have "\<forall>y \<in> set (map kf ?rest). y \<noteq> k" using Cons.prems(1) by auto
  then have keep: "filter (\<lambda>y. y \<noteq> k) (map kf ?rest) = map kf ?rest" by (simp add: filter_id_conv)
  have "uniq (map kf (concat (map (\<lambda>k. filter (\<lambda>a. kf a = k) sol) (k # ks))))
        = uniq (map kf (filter (\<lambda>a. kf a = k) sol) @ map kf ?rest)" by simp
  also have "\<dots> = k # uniq (filter (\<lambda>y. y \<noteq> k) (map kf ?rest))"
    by (rule uniq_same_prefix [OF ne same])
  also have "\<dots> = k # ks" using Cons keep by simp
  finally show ?case .
qed

lemma regroup_mset:
  "distinct ks \<Longrightarrow>
   mset (concat (map (\<lambda>k. filter (\<lambda>a. kf a = k) sol) ks)) = filter_mset (\<lambda>a. kf a \<in> set ks) (mset sol)"
proof (induction ks)
  case Nil
  then show ?case by simp
next
  case (Cons k ks)
  have "filter_mset (\<lambda>a. kf a \<in> set (k # ks)) (mset sol)
        = filter_mset (\<lambda>a. kf a = k) (mset sol) + filter_mset (\<lambda>a. kf a \<in> set ks) (mset sol)"
    using Cons.prems by (induction sol) auto
  then show ?case using Cons by simp
qed

lemma regroup_filter:
  "distinct ks \<Longrightarrow>
   filter (\<lambda>a. kf a = k) (concat (map (\<lambda>k. filter (\<lambda>a. kf a = k) sol) ks))
     = (if k \<in> set ks then filter (\<lambda>a. kf a = k) sol else [])"
proof (induction ks)
  case Nil
  then show ?case by simp
next
  case (Cons k' ks)
  have "filter (\<lambda>a. kf a = k) (filter (\<lambda>a. kf a = k') sol)
        = (if k = k' then filter (\<lambda>a. kf a = k) sol else [])"
    by (auto simp: filter_empty_conv intro: filter_cong)
  then show ?case using Cons by auto
qed

lemma g_flights_by_id_find:
  "g_flights_by_id st x = find (\<lambda>f. flight_id f = x) (rev (g_flights st))"
  by (simp add: g_flights_by_id_def fold_upd_find split: option.splits)

lemma g_flights_by_id_flight_id: "g_flights_by_id st x = Some f \<Longrightarrow> flight_id f = x"
  unfolding g_flights_by_id_find by (auto dest: find_SomeD)

lemma map_filter_by_id_filter:
  "List.map_filter (g_flights_by_id st) (filter (\<lambda>fid. fid \<in> flight_id ` S) ids)
   = filter (\<lambda>f. flight_id f \<in> flight_id ` S) (List.map_filter (g_flights_by_id st) ids)"
proof (induction ids)
  case Nil
  then show ?case by (simp add: List.map_filter_def)
next
  case (Cons a ids)
  show ?case
  proof (cases "g_flights_by_id st a")
    case None
    then show ?thesis using Cons by (simp add: List.map_filter_def)
  next
    case (Some f)
    then have "flight_id f = a" by (rule g_flights_by_id_flight_id)
    then show ?thesis using Cons Some by (simp add: List.map_filter_def)
  qed
qed

lemma flight_id_map_filter:
  "map flight_id (List.map_filter (g_flights_by_id st) ids) = filter (\<lambda>x. g_flights_by_id st x \<noteq> None) ids"
proof (induction ids)
  case Nil
  then show ?case by (simp add: List.map_filter_def)
next
  case (Cons a ids)
  then show ?case
    by (cases "g_flights_by_id st a") (auto simp: List.map_filter_def dest: g_flights_by_id_flight_id)
qed

lemma distinct_map_sort_key: "distinct (map g (sort_key k xs)) = distinct (map g xs)"
proof -
  have "mset (map g (sort_key k xs)) = mset (map g xs)" by simp
  then show ?thesis by (rule mset_eq_imp_distinct_iff)
qed

lemma distinct_route: "distinct (map flight_id (crew_route st sol cid))"
  unfolding crew_route_eq distinct_map_sort_key flight_id_map_filter
  by (simp add: flight_ids_of_def)

lemma set_keep_chain: "set (keep_chain l ys) \<subseteq> set ys"
  by (induction ys arbitrary: l) auto

lemma keep_chain_filter:
  "distinct (map g ys) \<Longrightarrow> filter (\<lambda>y. g y \<in> g ` set (keep_chain l ys)) ys = keep_chain l ys"
proof (induction ys arbitrary: l)
  case Nil
  then show ?case by simp
next
  case (Cons y ys)
  have d: "distinct (map g ys)" and ny: "g y \<notin> g ` set ys" using Cons.prems by auto
  show ?case
  proof (cases "l = None \<or> Some (dep_airport y) = l")
    case True
    let ?K = "keep_chain (Some (arr_airport y)) ys"
    have "g z \<noteq> g y" if "z \<in> set ys" for z
      using ny that by (metis imageI)
    then have "filter (\<lambda>z. g z \<in> g ` set (y # ?K)) ys = filter (\<lambda>z. g z \<in> g ` set ?K) ys"
      by (auto intro!: filter_cong)
    then show ?thesis using True Cons.IH [OF d, of "Some (arr_airport y)"] by auto
  next
    case False
    have "g y \<notin> g ` set (keep_chain l ys)" using ny set_keep_chain [of l ys] by blast
    then show ?thesis using False Cons.IH [OF d, of l] by auto
  qed
qed

lemma keep_chain_head:
  "keep_chain l ys = f # rest \<Longrightarrow> l \<noteq> None \<Longrightarrow> l = Some (dep_airport f)"
  by (induction ys arbitrary: l) (auto split: if_splits)

lemma linked_keep_chain: "linked (keep_chain l ys)"
proof (induction ys arbitrary: l)
  case Nil
  then show ?case by simp
next
  case (Cons y ys)
  show ?case
  proof (cases "l = None \<or> Some (dep_airport y) = l")
    case True
    have "linked (y # keep_chain (Some (arr_airport y)) ys)"
    proof (cases "keep_chain (Some (arr_airport y)) ys")
      case Nil
      then show ?thesis by simp
    next
      case (Cons f rest)
      then have "Some (arr_airport y) = Some (dep_airport f)" by (rule keep_chain_head) simp
      moreover have "linked (f # rest)" using Cons.IH [of "Some (arr_airport y)"] Cons by simp
      ultimately show ?thesis using Cons by simp
    qed
    then show ?thesis using True by auto
  next
    case False
    then show ?thesis using Cons.IH [of l] by auto
  qed
qed

lemma keep_chain_idem: "keep_chain l (keep_chain l ys) = keep_chain l ys"
proof (induction ys arbitrary: l)
  case Nil
  then show ?case by simp
next
  case (Cons y ys)
  then show ?case by auto
qed

lemma snd_filter_fst:
  "map snd (filter (\<lambda>p. fst p = c) (filter P ps))
   = filter (\<lambda>y. P (c, y)) (map snd (filter (\<lambda>p. fst p = c) ps))"
  by (induction ps) auto

lemma kept_keys_props:
  "distinct (filter (\<lambda>k. k \<in> K) (uniq (map pair_of sol)))"
  "set (filter (\<lambda>k. k \<in> K) (uniq (map pair_of sol))) \<subseteq> pair_of ` set sol"
  by auto

lemma keys_repair:
  "uniq (map pair_of (repair_solution_continuity st sol))
   = filter (\<lambda>k. k \<in> kept_pairs (flights_for_crew st {} [] sol)) (uniq (map pair_of sol))"
  unfolding repair_eq by (rule regroup_keys) (rule kept_keys_props)+

lemma flight_ids_repair:
  "flight_ids_of (repair_solution_continuity st sol) cid
   = filter (\<lambda>fid. fid \<in> flight_id ` set (keep_chain None (crew_route st sol cid)))
       (flight_ids_of sol cid)"
proof -
  have "flight_ids_of (repair_solution_continuity st sol) cid
        = map snd (filter (\<lambda>p. fst p = cid) (uniq (map pair_of (repair_solution_continuity st sol))))"
    by (simp only: snd_pairs_of_crew)
  also have "\<dots> = filter (\<lambda>fid. (cid, fid) \<in> kept_pairs (flights_for_crew st {} [] sol))
                     (map snd (filter (\<lambda>p. fst p = cid) (uniq (map pair_of sol))))"
    unfolding keys_repair by (rule snd_filter_fst)
  also have "\<dots> = filter (\<lambda>fid. fid \<in> flight_id ` set (keep_chain None (crew_route st sol cid)))
                     (flight_ids_of sol cid)"
    by (simp only: snd_pairs_of_crew kept_pairs_iff)
  finally show ?thesis .
qed

lemma route_repair:
  "crew_route st (repair_solution_continuity st sol) cid = keep_chain None (crew_route st sol cid)"
proof -
  let ?R = "crew_route st sol cid"
  let ?P = "\<lambda>f. flight_id f \<in> flight_id ` set (keep_chain None ?R)"
  have "crew_route st (repair_solution_continuity st sol) cid
        = sort_key dep_dt (filter ?P (List.map_filter (g_flights_by_id st) (flight_ids_of sol cid)))"
    unfolding crew_route_eq flight_ids_repair map_filter_by_id_filter ..
  also have "\<dots> = filter ?P ?R"
    unfolding crew_route_eq by (rule filter_sort [symmetric])
  also have "\<dots> = keep_chain None ?R"
    by (rule keep_chain_filter) (rule distinct_route)
  finally show ?thesis .
qed

lemma mset_repair:
  "mset (repair_solution_continuity st sol) = filter_mset (kept_flight st sol) (mset sol)"
proof -
  let ?K = "kept_pairs (flights_for_crew st {} [] sol)"
  have "mset (repair_solution_continuity st sol)
        = filter_mset (\<lambda>a. pair_of a \<in> set (filter (\<lambda>k. k \<in> ?K) (uniq (map pair_of sol)))) (mset sol)"
    unfolding repair_eq by (rule regroup_mset) simp
  also have "\<dots> = filter_mset (kept_flight st sol) (mset sol)"
    by (rule filter_mset_cong) (auto simp: pair_kept_iff)
  finally show ?thesis .
qed

lemma repair_idem:
  "repair_solution_continuity st (repair_solution_continuity st sol) = repair_solution_continuity st sol"
proof -
  let ?out = "repair_solution_continuity st sol"
  let ?K = "kept_pairs (flights_for_crew st {} [] sol)"
  let ?K' = "kept_pairs (flights_for_crew st {} [] ?out)"
  let ?ks = "filter (\<lambda>k. k \<in> ?K) (uniq (map pair_of sol))"
  have same: "k \<in> ?K' \<longleftrightarrow> k \<in> ?K" for k
  proof -
    obtain c fid where k: "k = (c, fid)" by (cases k)
    show ?thesis unfolding k kept_pairs_iff route_repair keep_chain_idem ..
  qed
  have ks': "filter (\<lambda>k. k \<in> ?K') (uniq (map pair_of ?out)) = ?ks"
    unfolding keys_repair by (simp add: same)
  have grp: "filter (\<lambda>a. pair_of a = k) ?out = filter (\<lambda>a. pair_of a = k) sol" if "k \<in> set ?ks" for k
  proof -
    have "filter (\<lambda>a. pair_of a = k) (concat (map (\<lambda>k. filter (\<lambda>a. pair_of a = k) sol) ?ks))
          = (if k \<in> set ?ks then filter (\<lambda>a. pair_of a = k) sol else [])"
      by (rule regroup_filter) simp
    then show ?thesis using that by (simp add: repair_eq [symmetric])
  qed
  have "repair_solution_continuity st ?out
        = concat (map (\<lambda>k. filter (\<lambda>a. pair_of a = k) ?out) ?ks)"
    by (subst repair_eq) (simp only: ks')
  also have "\<dots> = concat (map (\<lambda>k. filter (\<lambda>a. pair_of a = k) sol) ?ks)"
    by (rule arg_cong [where f = concat], rule map_cong [OF refl]) (rule grp)
  also have "\<dots> = ?out" by (simp only: repair_eq)
  finally show ?thesis .
qed

text \<open>
  Claim C4.  In the output of the repair, the distinct flights of every crew in the order
  of departure form a chain: it is the chain that \<open>keep_chain\<close> selects from the crew's flights
  in the input, each flight after the first leaving from the airport where its predecessor
  arrived.  The repair keeps exactly the assignments whose flight is on the kept chain of
  their crew, each as often as it occurs, and adds or alters none; repairing twice is
  repairing once.  A random individual and a mutated individual are outputs of the repair and
  so are chained, whatever the random draws.
\<close>

theorem repair_continuity:
  "linked (crew_route st (repair_solution_continuity st sol) cid)
   \<and> crew_route st (repair_solution_continuity st sol) cid = keep_chain None (crew_route st sol cid)
   \<and> mset (repair_solution_continuity st sol) = filter_mset (kept_flight st sol) (mset sol)
   \<and> repair_solution_continuity st (repair_solution_continuity st sol) = repair_solution_continuity st sol
   \<and> linked (crew_route st (create_random_solution rnd st) cid)
   \<and> (\<forall>out. mutate st hit rnd' sol = Some out \<longrightarrow> linked (crew_route st out cid))"
proof -
  have l: "linked (crew_route st (repair_solution_continuity st s) cid)" for s
    unfolding route_repair by (rule linked_keep_chain)
  have "linked (crew_route st out cid)" if "mutate st hit rnd' sol = Some out" for out
    using that l by (auto simp: mutate_def)
  then show ?thesis
    using l route_repair mset_repair repair_idem by (simp add: create_random_solution_def)
qed

lemma eval_sum_vars: "eval_lin val (sum_vars vs) = sum_list (map val vs)"
  by (simp add: eval_lin_def sum_vars_def comp_def)

lemma eval_const: "eval_lin val (const n) = n"
  by (simp add: eval_lin_def const_def)

lemma eval_var1: "eval_lin val (var1 v) = val v"
  by (simp add: eval_lin_def var1_def)

lemma sum_bool_count:
  "\<forall>v \<in> set vs. val v = 0 \<or> val v = (1::int) \<Longrightarrow>
   sum_list (map val vs) = int (length (filter (\<lambda>v. val v = 1) vs))"
  by (induction vs) auto

lemma feasible_append: "feasible val (xs @ ys) \<longleftrightarrow> feasible val xs \<and> feasible val ys"
  by (simp add: feasible_def)

lemma feasible_sat: "feasible val cs \<Longrightarrow> c \<in> set cs \<Longrightarrow> sat val c"
  by (simp add: feasible_def list_all_iff)

lemma set_dict_update:
  "(k, i) \<in> set (dict_update k' g d) \<Longrightarrow> (k, i) \<in> set d \<or> (k = k' \<and> (\<exists>old. i = g old))"
  by (induction d) (auto split: if_splits)

lemma fst_dict_update:
  "map fst (dict_update k g d) = (if k \<in> fst ` set d then map fst d else map fst d @ [k])"
proof (induction d)
  case Nil
  then show ?case by simp
next
  case (Cons p d)
  obtain k' v where p: "p = (k', v)" by (cases p)
  show ?case using Cons unfolding p by (cases "k' = k") (auto simp: image_iff)
qed

lemma x_items_snoc: "x_items (el @ [k]) = dict_update k (\<lambda>old. length el) (x_items el)"
  by (simp add: x_items_def)

lemma keys_x_items: "map fst (x_items el) = uniq el"
proof (induction el rule: rev_induct)
  case Nil
  then show ?case by (simp add: x_items_def)
next
  case (snoc k el)
  have "fst ` set (x_items el) = set el"
    using snoc by (metis set_map set_uniq)
  then show ?case using snoc by (simp add: x_items_snoc fst_dict_update uniq_snoc)
qed

lemma x_items_index: "(k, i) \<in> set (x_items el) \<Longrightarrow> i < length el \<and> el ! i = k"
proof (induction el arbitrary: k i rule: rev_induct)
  case Nil
  then show ?case by (simp add: x_items_def)
next
  case (snoc k' el)
  from snoc.prems have "(k, i) \<in> set (x_items el) \<or> (k = k' \<and> i = length el)"
    unfolding x_items_snoc by (auto dest: set_dict_update)
  then show ?case
  proof
    assume "(k, i) \<in> set (x_items el)"
    then have "i < length el \<and> el ! i = k" by (rule snoc.IH)
    then show ?thesis by (simp add: nth_append)
  next
    assume "k = k' \<and> i = length el"
    then show ?thesis by simp
  qed
qed

lemma x_item_key_eligible: "it \<in> set (x_items el) \<Longrightarrow> fst it \<in> set el"
  by (metis keys_x_items set_uniq image_eqI set_map)

lemma eligible_key: "t \<in> set el \<Longrightarrow> \<exists>it \<in> set (x_items el). fst it = t"
proof -
  assume "t \<in> set el"
  then have "t \<in> set (map fst (x_items el))" by (simp add: keys_x_items)
  then show ?thesis by auto
qed

lemma exact_model_sections:
  assumes "exact_model b = Inr cs"
  shows "\<exists>night wocl.
           window_times (night_duty_window (rules b)) = Inr night
         \<and> window_times (wocl_window (rules b)) = Inr wocl
         \<and> cs = model_sections b (build_eligibility b) night wocl @ add_objective b (build_eligibility b)"
  using assms
  by (auto simp: exact_model_def build_model_with_constraints_def Let_def
           split: sum.splits if_splits)

lemma model_decision_vars:
  "exact_model b = Inr cs \<Longrightarrow> set (decision_vars (eligible (build_eligibility b))) \<subseteq> set cs"
  by (drule exact_model_sections) (auto simp: model_sections_def Let_def)

lemma model_coverage:
  "exact_model b = Inr cs \<Longrightarrow>
   set (coverage_constraints (role_slots (build_eligibility b)) (x_items (eligible (build_eligibility b)))) \<subseteq> set cs"
  by (drule exact_model_sections) (auto simp: model_sections_def Let_def)

lemma model_seat:
  "exact_model b = Inr cs \<Longrightarrow> set (seat_constraints b (x_items (eligible (build_eligibility b)))) \<subseteq> set cs"
  by (drule exact_model_sections) (auto simp: model_sections_def Let_def)


lemma item_bool:
  assumes "exact_model b = Inr cs" "feasible val cs" "it \<in> set (x_items (eligible (build_eligibility b)))"
  shows "val (k_var it) = 0 \<or> val (k_var it) = 1"
proof -
  obtain k i where it: "it = (k, i)" by (cases it)
  then have "i < length (eligible (build_eligibility b))"
    using assms(3) x_items_index by blast
  then have "Domain (X i) 0 1 \<in> set (decision_vars (eligible (build_eligibility b)))"
    by (simp add: decision_vars_def)
  then have "sat val (Domain (X i) 0 1)"
    using model_decision_vars [OF assms(1)] feasible_sat [OF assms(2)] by blast
  then show ?thesis by (auto simp: it k_var_def)
qed

lemma chosen_count:
  assumes "exact_model b = Inr cs" "feasible val cs"
    and "set its \<subseteq> set (x_items (eligible (build_eligibility b)))"
  shows "sum_list (map val (map k_var its)) = int (length (filter (\<lambda>it. val (k_var it) = 1) its))"
proof -
  have "val v = 0 \<or> val v = 1" if "v \<in> set (map k_var its)" for v
  proof -
    from that obtain it where "it \<in> set its" "v = k_var it" by auto
    then show ?thesis using item_bool [OF assms(1,2), of it] assms(3) by blast
  qed
  then have "\<forall>v \<in> set (map k_var its). val v = 0 \<or> val v = 1" by blast
  then have "sum_list (map val (map k_var its)) = int (length (filter (\<lambda>v. val v = 1) (map k_var its)))"
    by (rule sum_bool_count)
  also have "\<dots> = int (length (filter (\<lambda>it. val (k_var it) = 1) its))"
    by (simp add: filter_map comp_def)
  finally show ?thesis .
qed

lemma slot_items_eq:
  "slot_items rs items = filter (\<lambda>it. slot_of_tuple rs (fst it)) items"
  unfolding slot_items_def
  by (rule filter_cong) (auto simp: slot_of_tuple_def k_flight_def k_role_def k_slot_def split: prod.splits)

text \<open>
  Claim C5.  The decision variables of a role slot are the variables of the eligible tuples
  with the slot's flight, role and slot index.  For every role slot the model holds the
  constraint that these variables sum to 1; among the tuples chosen by a feasible solution
  (those whose variable is 1) exactly one belongs to the slot; and when no eligible tuple
  belongs to the slot, no valuation is feasible.
\<close>

theorem coverage_exactly_one:
  assumes "exact_model b = Inr cs"
    and "rs \<in> set (role_slots (build_eligibility b))"
  shows "Lin (sum_vars (map k_var (filter (\<lambda>it. slot_of_tuple rs (fst it))
                                     (x_items (eligible (build_eligibility b)))))) EQ (const 1) \<in> set cs
       \<and> (feasible val cs \<longrightarrow>
            length (filter (slot_of_tuple rs)
                      (map fst (filter (\<lambda>it. val (k_var it) = 1)
                                  (x_items (eligible (build_eligibility b)))))) = 1)
       \<and> (filter (slot_of_tuple rs) (eligible (build_eligibility b)) = [] \<longrightarrow> \<not> feasible val cs)"
proof -
  let ?items = "x_items (eligible (build_eligibility b))"
  let ?sl = "filter (\<lambda>it. slot_of_tuple rs (fst it)) ?items"
  let ?c = "Lin (sum_vars (map k_var ?sl)) EQ (const 1)"
  have mem: "?c \<in> set cs"
    using model_coverage [OF assms(1)] assms(2)
    by (auto simp: coverage_constraints_def slot_items_eq)
  have sub: "set ?sl \<subseteq> set ?items" by auto
  have cnt: "length (filter (slot_of_tuple rs) (map fst (filter (\<lambda>it. val (k_var it) = 1) ?items)))
             = length (filter (\<lambda>it. val (k_var it) = 1) ?sl)"
  proof -
    have "filter (slot_of_tuple rs) (map fst (filter (\<lambda>it. val (k_var it) = 1) ?items))
          = map fst (filter (\<lambda>it. slot_of_tuple rs (fst it)) (filter (\<lambda>it. val (k_var it) = 1) ?items))"
      by (simp add: filter_map comp_def)
    also have "filter (\<lambda>it. slot_of_tuple rs (fst it)) (filter (\<lambda>it. val (k_var it) = 1) ?items)
               = filter (\<lambda>it. val (k_var it) = 1) ?sl"
      by (simp add: conj_commute)
    finally show ?thesis by simp
  qed
  have one: "length (filter (slot_of_tuple rs) (map fst (filter (\<lambda>it. val (k_var it) = 1) ?items))) = 1"
    if f: "feasible val cs"
  proof -
    have "sat val ?c" using feasible_sat [OF f mem] .
    then have "sum_list (map val (map k_var ?sl)) = 1"
      by (simp add: eval_sum_vars eval_const)
    then show ?thesis unfolding cnt using chosen_count [OF assms(1) f sub] by simp
  qed
  have none: "\<not> feasible val cs" if "filter (slot_of_tuple rs) (eligible (build_eligibility b)) = []"
  proof
    from that have no: "\<forall>t \<in> set (eligible (build_eligibility b)). \<not> slot_of_tuple rs t"
      by (simp add: filter_empty_conv)
    assume f: "feasible val cs"
    have "\<not> slot_of_tuple rs (fst it)" if "it \<in> set ?items" for it
      using no x_item_key_eligible [OF that] by blast
    then have "?sl = []" by (simp add: filter_empty_conv)
    then show False using one [OF f] unfolding cnt by simp
  qed
  show ?thesis using mem one none by blast
qed

lemma eligible_crew_known:
  "t \<in> set (eligible (build_eligibility b)) \<Longrightarrow> fst t \<in> crew_id ` set (crew b)"
  unfolding eligible_eq
  by (auto simp: eligible_for_slot_eq split: option.splits)


text \<open>
  On the exact path the property of one seat per crew and flight holds: the assignments read
  back from a feasible solution of the exact model hold at most one assignment of a crew to
  a flight.
\<close>

lemma exact_one_seat_per_flight:
  assumes "exact_model b = Inr cs" and "feasible val cs"
  shows "length (filter (\<lambda>a. a_crew_id a = c \<and> a_flight_id a = f) (exact_assignments b val)) \<le> 1"
proof -
  let ?items = "x_items (eligible (build_eligibility b))"
  let ?its = "pair_items c f ?items"
  have len: "length (filter (\<lambda>a. a_crew_id a = c \<and> a_flight_id a = f) (exact_assignments b val))
             = length (filter (\<lambda>it. val (k_var it) = 1) ?its)"
  proof -
    have "filter (\<lambda>a. a_crew_id a = c \<and> a_flight_id a = f) (exact_assignments b val)
          = map (\<lambda>it. Assignment (k_crew it) (k_flight it) (k_role it))
              (filter (\<lambda>it. k_crew it = c \<and> k_flight it = f) (filter (\<lambda>it. val (k_var it) = 1) ?items))"
      by (simp add: exact_assignments_def filter_map comp_def)
    then show ?thesis by (simp add: pair_items_def conj_commute)
  qed
  show ?thesis
  proof (cases "?its = []")
    case True
    then show ?thesis unfolding len by simp
  next
    case False
    then obtain it where it: "it \<in> set ?items" "k_crew it = c" "k_flight it = f"
      by (auto simp: pair_items_def filter_empty_conv)
    have "fst it \<in> set (eligible (build_eligibility b))" using it(1) by (rule x_item_key_eligible)
    then have "fst (fst it) \<in> crew_id ` set (crew b)" by (rule eligible_crew_known)
    then have c: "c \<in> set (crew_ids b)"
      using it(2) by (cases it) (auto simp: k_crew_def crew_ids_def)
    have f: "f \<in> set (remdups (map k_flight (filter (\<lambda>it. k_crew it = c) ?items)))"
      using it by auto
    have "Lin (sum_vars (map k_var ?its)) LE (const 1) \<in> set (seat_constraints b ?items)"
      unfolding seat_constraints_def using c f by auto
    then have "sat val (Lin (sum_vars (map k_var ?its)) LE (const 1))"
      using model_seat [OF assms(1)] feasible_sat [OF assms(2)] by blast
    then have "sum_list (map val (map k_var ?its)) \<le> 1"
      by (simp add: eval_sum_vars eval_const)
    moreover have "set ?its \<subseteq> set ?items" by (auto simp: pair_items_def)
    ultimately show ?thesis
      unfolding len using chosen_count [OF assms, of ?its] by simp
  qed
qed







lemma ex_f1_fields [simp]:
  "flight_id ex_f1 = ''F1''"
  "dep_airport ex_f1 = ''DEL''"
  "arr_airport ex_f1 = ''BOM''"
  "dep_dt ex_f1 = mk_dt 20339 6 0"
  "arr_dt ex_f1 = mk_dt 20339 8 0"
  "aircraft_type ex_f1 = ''A320''"
  "needed_captains ex_f1 = 1"
  "needed_fo ex_f1 = 0"
  "needed_sc ex_f1 = 0"
  "needed_cc ex_f1 = 0"
  by (simp_all add: ex_f1_def)

lemma ex_f2_fields [simp]:
  "flight_id ex_f2 = ''F2''"
  "dep_airport ex_f2 = ''BOM''"
  "arr_airport ex_f2 = ''GOI''"
  "dep_dt ex_f2 = mk_dt 20339 9 0"
  "arr_dt ex_f2 = mk_dt 20339 10 0"
  "aircraft_type ex_f2 = ''A320''"
  "needed_captains ex_f2 = 1"
  "needed_fo ex_f2 = 0"
  "needed_sc ex_f2 = 0"
  "needed_cc ex_f2 = 0"
  by (simp_all add: ex_f2_def)

lemma ex_f3_fields [simp]:
  "flight_id ex_f3 = ''F3''"
  "dep_airport ex_f3 = ''BOM''"
  "arr_airport ex_f3 = ''DEL''"
  "dep_dt ex_f3 = mk_dt 20339 12 0"
  "arr_dt ex_f3 = mk_dt 20339 14 0"
  "aircraft_type ex_f3 = ''A320''"
  "needed_captains ex_f3 = 1"
  "needed_fo ex_f3 = 0"
  "needed_sc ex_f3 = 0"
  "needed_cc ex_f3 = 0"
  by (simp_all add: ex_f3_def)

lemma ex_p1_fields [simp]:
  "crew_id ex_p1 = ''P1''"
  "name ex_p1 = ''Asha''"
  "role ex_p1 = ''Captain''"
  "base ex_p1 = ''DEL''"
  "qualified_types ex_p1 = ''A320|A321''"
  "weekly_max_duty_hrs ex_p1 = Some 40"
  "leave_status ex_p1 = ''Available''"
  "sccm_certified ex_p1 = False"
  "experience_months ex_p1 = 120"
  by (simp_all add: ex_p1_def)

lemma ex_p2_fields [simp]:
  "crew_id ex_p2 = ''P2''"
  "name ex_p2 = ''Ravi''"
  "role ex_p2 = ''Captain''"
  "base ex_p2 = ''BOM''"
  "qualified_types ex_p2 = ''A320''"
  "weekly_max_duty_hrs ex_p2 = None"
  "leave_status ex_p2 = ''Available''"
  "sccm_certified ex_p2 = False"
  "experience_months ex_p2 = 90"
  by (simp_all add: ex_p2_def)

lemma ex_bundle_fields [simp]:
  "flights ex_bundle = [ex_f1, ex_f2, ex_f3]"
  "crew ex_bundle = [ex_p1, ex_p2]"
  "rules ex_bundle = ex_rules"
  "sickness_days ex_bundle = Map.empty"
  "prefs ex_bundle = Map.empty"
  by (simp_all add: ex_bundle_def)

lemma ex_day: "isoformat 20339 = ''2025-09-08''"
  by code_simp

lemma ex_dates [simp]:
  "date_of (mk_dt 20339 6 0) = 20339" "date_of (mk_dt 20339 8 0) = 20339"
  "date_of (mk_dt 20339 9 0) = 20339" "date_of (mk_dt 20339 10 0) = 20339"
  "date_of (mk_dt 20339 12 0) = 20339" "date_of (mk_dt 20339 14 0) = 20339"
  by (simp_all add: date_of_def mk_dt_def)

lemma ex_times [simp]:
  "time_of (mk_dt 20339 6 0) = 21600" "time_of (mk_dt 20339 8 0) = 28800"
  "time_of (mk_dt 20339 9 0) = 32400" "time_of (mk_dt 20339 10 0) = 36000"
  "time_of (mk_dt 20339 12 0) = 43200" "time_of (mk_dt 20339 14 0) = 50400"
  by (simp_all add: time_of_def mk_dt_def)

lemma ex_day_strs [simp]:
  "flight_day_str (mk_dt 20339 6 0) = ''2025-09-08''"
  "flight_day_str (mk_dt 20339 9 0) = ''2025-09-08''"
  "flight_day_str (mk_dt 20339 12 0) = ''2025-09-08''"
  by (simp_all add: flight_day_str_def ex_day)

lemma ex_flights_by_id [simp]:
  "flights_by_id ex_bundle ''F1'' = Some ex_f1"
  "flights_by_id ex_bundle ''F2'' = Some ex_f2"
  "flights_by_id ex_bundle ''F3'' = Some ex_f3"
  by (simp_all add: flights_by_id_def)

lemma ex_the_flight [simp]:
  "the_flight ex_bundle ''F1'' = ex_f1"
  "the_flight ex_bundle ''F2'' = ex_f2"
  "the_flight ex_bundle ''F3'' = ex_f3"
  by (simp_all add: the_flight_def)

lemma ex_role_slots:
  "role_slots (build_eligibility ex_bundle) =
     [RoleSlot ''F1'' ''Captain'' 0, RoleSlot ''F2'' ''Captain'' 0, RoleSlot ''F3'' ''Captain'' 0]"
  by (simp add: build_eligibility_def build_role_slots_def slots_of_flight_def Let_def)

lemma ex_role_key [simp]: "role_key ''Captain'' = ''Captain''"
  by (simp add: role_key_def strip_def py_isspace_def)

lemma ex_qualified [simp]:
  "crew_qualified_for ''A320'' ''A320|A321''" "crew_qualified_for ''A320'' ''A320''"
  by (simp_all add: crew_qualified_for_def)

lemma ex_eligible:
  "eligible (build_eligibility ex_bundle) =
     [(''P1'', ''F1'', ''Captain'', 0), (''P2'', ''F1'', ''Captain'', 0),
      (''P1'', ''F2'', ''Captain'', 0), (''P2'', ''F2'', ''Captain'', 0),
      (''P1'', ''F3'', ''Captain'', 0), (''P2'', ''F3'', ''Captain'', 0)]"
  by (simp add: eligible_eq eligible_for_slot_eq build_role_slots_def slots_of_flight_def
        crew_role_matches_def sick_days_of_def)

lemma ex_x_items: "x_items (eligible (build_eligibility ex_bundle)) = ex_items"
  by (simp add: ex_eligible x_items_def ex_items_def upt_rec [of 0])

lemma ex_minutes [simp]:
  "minutes_by_flight (build_eligibility ex_bundle) ''F1'' = Some 120"
  "minutes_by_flight (build_eligibility ex_bundle) ''F2'' = Some 60"
  "minutes_by_flight (build_eligibility ex_bundle) ''F3'' = Some 120"
  by (simp_all add: minutes_by_flight_eq flight_minutes_def mk_dt_def)

lemma ex_days [simp]:
  "day_by_flight (build_eligibility ex_bundle) ''F1'' = Some ''2025-09-08''"
  "day_by_flight (build_eligibility ex_bundle) ''F2'' = Some ''2025-09-08''"
  "day_by_flight (build_eligibility ex_bundle) ''F3'' = Some ''2025-09-08''"
  by (simp_all add: day_by_flight_eq)

lemma ex_operating_days [simp]: "operating_days ex_bundle = [''2025-09-08'']"
  by (simp add: operating_days_def)

lemma ex_crew_ids [simp]: "crew_ids ex_bundle = [''P1'', ''P2'']"
  by (simp add: crew_ids_def)

lemmas k_defs = k_crew_def k_flight_def k_role_def k_slot_def k_var_def
lemmas lin_defs = eval_lin_def sum_vars_def const_def var1_def

lemma feasible_Nil: "feasible val []"
  by (simp add: feasible_def)

lemma feasible_Cons: "feasible val (c # cs) \<longleftrightarrow> sat val c \<and> feasible val cs"
  by (simp add: feasible_def)

lemma ex_decision_vars: "feasible ex_val (decision_vars el)"
  by (simp add: decision_vars_def feasible_def list_all_iff)

lemma ex_coverage:
  "feasible ex_val (coverage_constraints (role_slots (build_eligibility ex_bundle)) ex_items)"
  by (simp add: ex_role_slots coverage_constraints_def feasible_def slot_items_def ex_items_def
        k_defs lin_defs)

lemma ex_seat: "feasible ex_val (seat_constraints ex_bundle ex_items)"
  by (simp add: seat_constraints_def feasible_def pair_items_def ex_items_def k_defs lin_defs)

lemma ex_composition: "composition_constraints ex_bundle ex_items = []"
  by (simp add: composition_constraints_def Let_def)


lemma ex_intervals:
  "intervals_by_crew ex_bundle (eligible (build_eligibility ex_bundle)) =
     [(''P1'', [(mk_dt 20339 6 0, 9900, mk_dt 20339 6 0 + 9900, X 0),
               (mk_dt 20339 9 0, 6300, mk_dt 20339 9 0 + 6300, X 2),
               (mk_dt 20339 12 0, 9900, mk_dt 20339 12 0 + 9900, X 4)]),
      (''P2'', [(mk_dt 20339 6 0, 9900, mk_dt 20339 6 0 + 9900, X 1),
               (mk_dt 20339 9 0, 6300, mk_dt 20339 9 0 + 6300, X 3),
               (mk_dt 20339 12 0, 9900, mk_dt 20339 12 0 + 9900, X 5)])]"
  by (simp add: ex_eligible intervals_by_crew_def interval_of_def list_append_def upt_rec [of 0]
        Let_def ex_rules_def mk_dt_def)

lemma ex_no_overlap:
  "feasible ex_val (no_overlap_constraints ex_bundle (eligible (build_eligibility ex_bundle)))"
  unfolding no_overlap_constraints_def ex_intervals
  by (simp add: feasible_def present_def disjoint_def mk_dt_def)

lemma ex_crew_flights:
  "crew_flights ex_bundle ex_items ''P1'' = [(''F1'', ex_f1), (''F2'', ex_f2), (''F3'', ex_f3)]"
  "crew_flights ex_bundle ex_items ''P2'' = [(''F1'', ex_f1), (''F2'', ex_f2), (''F3'', ex_f3)]"
  by (simp_all add: crew_flights_def ex_items_def k_defs mk_dt_def)

lemma ex_rest_list:
  "rest_constraints ex_bundle (eligible (build_eligibility ex_bundle)) ex_items =
     [Lin ([(1, X 0), (1, X 2)], 0) LE (const 1), Lin ([(1, X 2), (1, X 4)], 0) LE (const 1),
      Lin ([(1, X 1), (1, X 3)], 0) LE (const 1), Lin ([(1, X 3), (1, X 5)], 0) LE (const 1)]"
  unfolding rest_constraints_def ex_intervals
  apply (simp add: ex_crew_flights adjacent_def ex_rules_def mk_dt_def)
  apply (simp add: exclude_pair_def pair_items_def ex_items_def k_defs)
  done

lemma ex_rest: "feasible ex_val (rest_constraints ex_bundle (eligible (build_eligibility ex_bundle)) ex_items)"
  unfolding ex_rest_list by (simp add: feasible_def lin_defs)

lemma ex_continuity_list:
  "continuity_constraints ex_bundle ex_items =
     [Lin ([(1, X 2), (1, X 4)], 0) LE (const 1), Lin ([(1, X 3), (1, X 5)], 0) LE (const 1)]"
  unfolding continuity_constraints_def
  apply (simp add: ex_crew_flights adjacent_def)
  apply (simp add: exclude_pair_def pair_items_def ex_items_def k_defs)
  done

lemma ex_continuity: "feasible ex_val (continuity_constraints ex_bundle ex_items)"
  unfolding ex_continuity_list by (simp add: feasible_def lin_defs)

lemma ex_night: "night_constraints ex_bundle ex_items (79200, 18000) = []"
  by (simp add: night_constraints_def ex_items_def k_defs in_night_window_def in_window_def Let_def
        ex_rules_def)


lemma ex_day_items:
  "day_items (build_eligibility ex_bundle) ex_items ''P1'' ''2025-09-08'' =
     [((''P1'', ''F1'', ''Captain'', 0), 0), ((''P1'', ''F2'', ''Captain'', 0), 2),
      ((''P1'', ''F3'', ''Captain'', 0), 4)]"
  "day_items (build_eligibility ex_bundle) ex_items ''P2'' ''2025-09-08'' =
     [((''P2'', ''F1'', ''Captain'', 0), 1), ((''P2'', ''F2'', ''Captain'', 0), 3),
      ((''P2'', ''F3'', ''Captain'', 0), 5)]"
  by (simp_all add: day_items_def ex_items_def k_defs)

lemma ex_caps:
  "daily_cap_for_role ex_rules ''Captain'' = 10" "wocl_len_minutes ex_rules = 240"
  by (simp_all add: daily_cap_for_role_def wocl_len_minutes_def ex_rules_def Let_def)

lemma ex_day_constraints:
  "feasible ex_val (day_constraints ex_bundle (build_eligibility ex_bundle) ex_items (7200, 21600) 0 ex_p1 ''2025-09-08'')"
  "feasible ex_val (day_constraints ex_bundle (build_eligibility ex_bundle) ex_items (7200, 21600) (Suc 0) ex_p2 ''2025-09-08'')"
  unfolding day_constraints_def d_terms_def Let_def ex_p1_fields ex_p2_fields ex_day_items
  by (simp_all add: feasible_def lin_defs k_defs assignment_minutes_def ex_caps
        in_window_def in_night_window_def)

lemma ex_total_terms:
  "total_terms (build_eligibility ex_bundle) ex_items ''P1'' = [(120, X 0), (60, X 2), (120, X 4)]"
  "total_terms (build_eligibility ex_bundle) ex_items ''P2'' = [(120, X 1), (60, X 3), (120, X 5)]"
  by (simp_all add: total_terms_def ex_items_def k_defs assignment_minutes_def)

lemma ex_daily:
  "feasible ex_val (daily_constraints ex_bundle (build_eligibility ex_bundle) ex_items (7200, 21600))"
  unfolding daily_constraints_def
  by (simp add: upt_rec [of 0] crew_constraints_def Let_def ex_total_terms feasible_append
        feasible_Cons feasible_Nil ex_day_constraints lin_defs dict_get_def ex_rules_def)

lemma ex_base:
  "feasible ex_val (base_return_constraints ex_bundle (build_eligibility ex_bundle) ex_items)"
  unfolding base_return_constraints_def base_day_constraints_def Let_def
  by (simp add: upt_rec [of 0] role_norm_def ex_day_items k_defs mk_dt_def feasible_def lin_defs)

lemma ex_totals: "minutes_total_by_crew ex_bundle = [(''P1'', 0), (''P2'', 1)]"
  by (simp add: minutes_total_by_crew_def upt_rec [of 0])

lemma ex_objective: "feasible ex_val (add_objective ex_bundle (build_eligibility ex_bundle))"
  unfolding add_objective_def ex_totals ex_x_items Let_def
  by (simp add: feasible_def lin_defs ex_items_def k_defs)

lemma ex_exact_model: "exact_model ex_bundle = Inr ex_model"
  by (simp add: exact_model_def build_model_with_constraints_def window_times_def ex_rules_def
        ex_model_def Let_def)

lemma ex_feasible: "feasible ex_val ex_model"
  unfolding ex_model_def model_sections_def Let_def ex_x_items feasible_append
  using ex_decision_vars ex_coverage ex_seat ex_no_overlap ex_rest ex_daily ex_continuity ex_base
        ex_objective
  by (simp add: ex_composition ex_night feasible_def)

lemma keys_dict_update: "fst ` set (dict_update k g d) = insert k (fst ` set d)"
proof -
  have "set (map fst (dict_update k g d)) = insert k (set (map fst d))"
    unfolding fst_dict_update by auto
  then show ?thesis by simp
qed

lemma crew_hours_Some:
  "lookups_ok st sol \<Longrightarrow>
   \<exists>d'. crew_hours st d sol = Some d' \<and> fst ` set d' = fst ` set d \<union> a_crew_id ` set sol"
proof (induction sol arbitrary: d)
  case Nil
  then show ?case by simp
next
  case (Cons a sol)
  from Cons.prems obtain c f where
    c: "next_crew st (a_crew_id a) = Some c" and f: "next_flight st (a_flight_id a) = Some f"
    and rest: "lookups_ok st sol"
    by (auto simp: lookups_ok_def)
  from Cons.IH [OF rest, of "dict_update (a_crew_id a) (add_hours (flight_hours f)) d"]
  show ?case by (auto simp: c f keys_dict_update)
qed

lemma crew_hours_None: "\<not> lookups_ok st sol \<Longrightarrow> crew_hours st d sol = None"
proof (induction sol arbitrary: d)
  case Nil
  then show ?case by (simp add: lookups_ok_def)
next
  case (Cons a sol)
  then show ?case by (auto simp: lookups_ok_def split: option.splits)
qed

lemma overtime_sum_Some:
  "\<forall>k \<in> fst ` set d. next_crew st k \<noteq> None \<Longrightarrow> \<exists>r. overtime_sum st acc d = Some r"
proof (induction d arbitrary: acc)
  case Nil
  then show ?case by simp
next
  case (Cons p d)
  obtain k h where p: "p = (k, h)" by (cases p)
  from Cons.prems obtain c where c: "next_crew st k = Some c" by (auto simp: p)
  from Cons.prems have "\<forall>k \<in> fst ` set d. next_crew st k \<noteq> None" by simp
  from Cons.IH [OF this] show ?case by (simp add: p c)
qed

lemma overtime_defined:
  assumes "lookups_ok st sol"
  shows "\<exists>ot. calculate_overtime_penalty st sol = Some ot"
proof -
  from crew_hours_Some [OF assms, of "[]"] obtain d' where
    d': "crew_hours st [] sol = Some d'" and keys: "fst ` set d' = a_crew_id ` set sol" by auto
  have "\<forall>k \<in> fst ` set d'. next_crew st k \<noteq> None"
    unfolding keys using assms by (auto simp: lookups_ok_def list_all_iff)
  from overtime_sum_Some [OF this, of 0] show ?thesis
    by (simp add: calculate_overtime_penalty_def d')
qed

lemma fairness_defined:
  assumes "lookups_ok st sol"
  shows "\<exists>fair. calculate_fairness_score st sol = Some fair"
proof -
  from crew_hours_Some [OF assms, of "[]"] obtain d' where "crew_hours st [] sol = Some d'" by auto
  then show ?thesis by (simp add: calculate_fairness_score_def)
qed

text \<open>
  Claim C3, as amended.  An empty individual evaluates to minus infinity.  A non-empty
  individual evaluates to minus infinity exactly when the flights require no position in total
  or one of its crew or flight ids is unknown; otherwise its fitness is the maximum of 0.1
  and 1000 times the coverage, minus 0.1 \<open>w_ot\<close> times the overtime, plus 0.1 \<open>w_fair\<close> times the
  fairness score, minus 0.01 \<open>w_continuity\<close> times the continuity penalty, minus 0.01 \<open>w_base\<close>
  times the base-return penalty, plus \<open>w_stability\<close> times the stability fraction.
\<close>

theorem evaluate_fitness_formula:
  "evaluate_fitness st [] = NegInf
   \<and> (evaluate_fitness st sol = NegInf
        \<longleftrightarrow> sol = [] \<or> total_required_positions st \<le> 0 \<or> \<not> lookups_ok st sol)
   \<and> (sol \<noteq> [] \<longrightarrow> 0 < total_required_positions st \<longrightarrow> lookups_ok st sol \<longrightarrow>
        (\<exists>overtime fairness.
           calculate_overtime_penalty st sol = Some overtime
         \<and> calculate_fairness_score st sol = Some fairness
         \<and> evaluate_fitness st sol =
             Fin (max (1000 * min 1 (real (length sol) / real_of_int (total_required_positions st))
                       - 0.1 * w_ot st * overtime
                       + 0.1 * w_fair st * fairness
                       - 0.01 * w_continuity st * fst (calculate_continuity_and_base_penalties st sol)
                       - 0.01 * w_base st * snd (calculate_continuity_and_base_penalties st sol)
                       + w_stability st * calculate_stability_bonus st sol) 0.1)))"
proof -
  let ?tot = "total_required_positions st"
  have empty: "evaluate_fitness st [] = NegInf" by (simp add: evaluate_fitness_def)
  have cov_neg: "evaluate_fitness st sol = NegInf" if "?tot \<le> 0"
  proof (cases "?tot = 0")
    case True
    then show ?thesis by (simp add: evaluate_fitness_def calculate_coverage_score_def)
  next
    case False
    then have "?tot < 0" using that by simp
    then have "real (length sol) / real_of_int ?tot \<le> 0"
      by (simp add: divide_nonneg_neg divide_le_0_iff)
    then show ?thesis using False by (simp add: evaluate_fitness_def calculate_coverage_score_def)
  qed
  have bad: "evaluate_fitness st sol = NegInf" if "\<not> lookups_ok st sol"
    using crew_hours_None [OF that, of "[]"]
    by (simp add: evaluate_fitness_def calculate_overtime_penalty_def split: option.splits)
  have good: "\<exists>overtime fairness.
           calculate_overtime_penalty st sol = Some overtime
         \<and> calculate_fairness_score st sol = Some fairness
         \<and> evaluate_fitness st sol =
             Fin (max (1000 * min 1 (real (length sol) / real_of_int ?tot)
                       - 0.1 * w_ot st * overtime
                       + 0.1 * w_fair st * fairness
                       - 0.01 * w_continuity st * fst (calculate_continuity_and_base_penalties st sol)
                       - 0.01 * w_base st * snd (calculate_continuity_and_base_penalties st sol)
                       + w_stability st * calculate_stability_bonus st sol) 0.1)"
    if ne: "sol \<noteq> []" and pos: "0 < ?tot" and ok: "lookups_ok st sol"
  proof -
    from overtime_defined [OF ok] obtain ot where ot: "calculate_overtime_penalty st sol = Some ot" by blast
    from fairness_defined [OF ok] obtain fair where fair: "calculate_fairness_score st sol = Some fair" by blast
    have cov: "\<not> real (length sol) / real_of_int ?tot \<le> 0" using ne pos by (simp add: not_le)
    have "evaluate_fitness st sol =
             Fin (max (1000 * min 1 (real (length sol) / real_of_int ?tot)
                       - 0.1 * w_ot st * ot
                       + 0.1 * w_fair st * fair
                       - 0.01 * w_continuity st * fst (calculate_continuity_and_base_penalties st sol)
                       - 0.01 * w_base st * snd (calculate_continuity_and_base_penalties st sol)
                       + w_stability st * calculate_stability_bonus st sol) 0.1)"
      using ne pos cov
      by (simp add: evaluate_fitness_def calculate_coverage_score_def ot fair split: prod.splits)
    then show ?thesis using ot fair by blast
  qed
  have iff: "evaluate_fitness st sol = NegInf \<longleftrightarrow> sol = [] \<or> ?tot \<le> 0 \<or> \<not> lookups_ok st sol"
  proof
    assume n: "evaluate_fitness st sol = NegInf"
    show "sol = [] \<or> ?tot \<le> 0 \<or> \<not> lookups_ok st sol"
    proof (rule ccontr)
      assume "\<not> (sol = [] \<or> ?tot \<le> 0 \<or> \<not> lookups_ok st sol)"
      then have "sol \<noteq> []" "0 < ?tot" "lookups_ok st sol" by auto
      from good [OF this] show False using n by auto
    qed
  next
    assume "sol = [] \<or> ?tot \<le> 0 \<or> \<not> lookups_ok st sol"
    then show "evaluate_fitness st sol = NegInf" using empty cov_neg bad by auto
  qed
  show ?thesis using empty iff good by blast
qed

lemma ex_g1_fields [simp]:
  "flight_id ex_g1 = ''G1''" "dep_airport ex_g1 = ''DEL''" "arr_airport ex_g1 = ''BOM''"
  "dep_dt ex_g1 = mk_dt 20339 6 0" "arr_dt ex_g1 = mk_dt 20339 8 0" "aircraft_type ex_g1 = ''A320''"
  "needed_captains ex_g1 = 0" "needed_fo ex_g1 = 0" "needed_sc ex_g1 = 0" "needed_cc ex_g1 = 2"
  by (simp_all add: ex_g1_def)

lemma ex_k1_fields [simp]:
  "g_crew_id ex_k1 = ''K1''" "g_role ex_k1 = ''Cabin Crew''" "g_base ex_k1 = ''BOM''"
  "g_qualified_types ex_k1 = [''A320'']" "g_weekly_max_duty_hrs ex_k1 = 40" "available ex_k1"
  by (simp_all add: ex_k1_def)

lemma ex_optimizer_fields [simp]:
  "g_flights ex_optimizer = [ex_g1]" "g_crew ex_optimizer = [ex_k1]" "baseline_pairs ex_optimizer = {}"
  "w_ot ex_optimizer = 100" "w_fair ex_optimizer = 10" "w_base ex_optimizer = 50"
  "w_continuity ex_optimizer = 75" "w_stability ex_optimizer = 300"
  by (simp_all add: ex_optimizer_def)

lemma ex_a1_fields [simp]:
  "a_crew_id ex_a1 = ''K1''" "a_flight_id ex_a1 = ''G1''" "a_role ex_a1 = ''Cabin Crew''"
  by (simp_all add: ex_a1_def)

lemma ex_g_lookups [simp]:
  "g_flights_by_id ex_optimizer ''G1'' = Some ex_g1"
  "g_crew_by_id ex_optimizer ''K1'' = Some ex_k1"
  "next_crew ex_optimizer ''K1'' = Some ex_k1"
  "next_flight ex_optimizer ''G1'' = Some ex_g1"
  "next_crew ex_optimizer ''K9'' = None"
  by (simp_all add: g_flights_by_id_def g_crew_by_id_def next_crew_def next_flight_def)

lemma ex_fitness_parts:
  "calculate_coverage_score ex_optimizer [ex_a1] = Some (1 / 2)"
  "calculate_overtime_penalty ex_optimizer [ex_a1] = Some 0"
  "calculate_fairness_score ex_optimizer [ex_a1] = Some 1"
  "calculate_continuity_and_base_penalties ex_optimizer [ex_a1] = (0, 0)"
  "calculate_stability_bonus ex_optimizer [ex_a1] = 0"
  by (simp_all add: calculate_coverage_score_def total_required_positions_def
        calculate_overtime_penalty_def calculate_fairness_score_def add_hours_def flight_hours_def
        np_mean_def np_std_def mk_dt_def calculate_continuity_and_base_penalties_def
        crew_schedules_def list_append_def days_away_def max_by_arr_def
        calculate_stability_bonus_def Let_def)

lemma ex_fitness_value: "evaluate_fitness ex_optimizer [ex_a1] = Fin 501"
  by (simp add: evaluate_fitness_def ex_fitness_parts)

lemma ex_fitness_ghost: "evaluate_fitness ex_optimizer [Assignment ''K9'' ''G1'' ''Cabin Crew''] = NegInf"
  by (simp add: evaluate_fitness_def calculate_coverage_score_def total_required_positions_def
        calculate_overtime_penalty_def)

text \<open>
  Claim C3 as stated fails.  One cabin crew member on one of the two seats of a flight has
  coverage 1/2, fairness 1 and no penalty: the code returns 501, the formula of the claim,
  which subtracts the fairness term, gives 499.  And a non-empty individual with an unknown
  crew id evaluates to minus infinity, not to a positive number.
\<close>

theorem fitness_adds_fairness_counterexample:
  "evaluate_fitness ex_optimizer [ex_a1] = Fin 501
   \<and> fitness_as_specified ex_optimizer (1 / 2) 0 1 0 0 0 = 499
   \<and> [Assignment ''K9'' ''G1'' ''Cabin Crew''] \<noteq> []
   \<and> evaluate_fitness ex_optimizer [Assignment ''K9'' ''G1'' ''Cabin Crew''] = NegInf"
  by (simp add: ex_fitness_value ex_fitness_ghost fitness_as_specified_def)

text \<open>The same individual satisfies the hypotheses of the formula.\<close>

theorem evaluate_fitness_formula_witness:
  "[ex_a1] \<noteq> [] \<and> 0 < total_required_positions ex_optimizer \<and> lookups_ok ex_optimizer [ex_a1]
   \<and> evaluate_fitness ex_optimizer [ex_a1] = Fin 501
   \<and> evaluate_fitness ex_optimizer [] = NegInf"
  using evaluate_fitness_formula [of ex_optimizer "[ex_a1]"]
  by (simp add: ex_fitness_parts total_required_positions_def lookups_ok_def)

lemma ex_random_fill: "random_fill rnd ex_optimizer = [ex_a1, ex_a1]"
  by (simp add: random_fill_def Let_def numeral_2_eq_2 choice_def ex_a1_def)

lemma ex_repair_twice: "repair_solution_continuity ex_optimizer [ex_a1, ex_a1] = [ex_a1, ex_a1]"
  by (simp add: repair_solution_continuity_def by_cf_def list_append_def pair_of_def kept_pairs_def
        Let_def)

lemma ex_crossover:
  "crossover skip r [ex_a1, ex_a1] [ex_a1, ex_a1] = ([ex_a1, ex_a1], [ex_a1, ex_a1])"
  by (simp add: crossover_def)

lemma ex_mutate_twice: "mutate ex_optimizer hit rnd [ex_a1, ex_a1] = Some [ex_a1, ex_a1]"
  by (simp add: mutate_def mutate_gene_def ex_repair_twice)

text \<open>
  Claim C2.  A flight needs two cabin crew and one cabin crew member is available.  The
  random construction puts her on both seats and the repair keeps both assignments, so the
  individual holds the same crew twice on the same flight.  Crossover and mutation of such
  individuals give the same individual again (for any draws, by the three lemmas above), so
  the solution that the engine returns holds her twice as well.
\<close>

theorem genetic_double_seat:
  "create_random_solution (\<lambda>i. 0) ex_optimizer = [ex_a1, ex_a1]
   \<and> crossover False 0 [ex_a1, ex_a1] [ex_a1, ex_a1] = ([ex_a1, ex_a1], [ex_a1, ex_a1])
   \<and> mutate ex_optimizer (\<lambda>i. True) (\<lambda>i. 0) [ex_a1, ex_a1] = Some [ex_a1, ex_a1]
   \<and> length (filter (\<lambda>a. a_crew_id a = ''K1'' \<and> a_flight_id a = ''G1'')
               (create_random_solution (\<lambda>i. 0) ex_optimizer)) = 2"
  by (simp add: create_random_solution_def ex_random_fill ex_repair_twice ex_crossover
        ex_mutate_twice)

lemma ex_h_fields [simp]:
  "flight_id ex_h1 = ''H1''" "dep_airport ex_h1 = ''DEL''" "arr_airport ex_h1 = ''BOM''"
  "dep_dt ex_h1 = mk_dt 20339 6 0" "arr_dt ex_h1 = mk_dt 20339 8 0"
  "flight_id ex_h2 = ''H2''" "dep_airport ex_h2 = ''DEL''" "arr_airport ex_h2 = ''GOI''"
  "dep_dt ex_h2 = mk_dt 20339 8 30" "arr_dt ex_h2 = mk_dt 20339 10 0"
  by (simp_all add: ex_h1_def ex_h2_def)

lemma ex_optimizer2_fields [simp]:
  "g_flights ex_optimizer2 = [ex_h1, ex_h2]" "g_crew ex_optimizer2 = [ex_k2]"
  by (simp_all add: ex_optimizer2_def)

lemma ex_b_fields [simp]:
  "a_crew_id ex_b1 = ''K2''" "a_flight_id ex_b1 = ''H1''" "a_role ex_b1 = ''Captain''"
  "a_crew_id ex_b2 = ''K2''" "a_flight_id ex_b2 = ''H2''" "a_role ex_b2 = ''Captain''"
  by (simp_all add: ex_b1_def ex_b2_def)

lemma ex_h_lookups [simp]:
  "g_flights_by_id ex_optimizer2 ''H1'' = Some ex_h1"
  "g_flights_by_id ex_optimizer2 ''H2'' = Some ex_h2"
  by (simp_all add: g_flights_by_id_def)

lemma ex_repair: "repair_solution_continuity ex_optimizer2 [ex_b1, ex_b2] = [ex_b1]"
  by (simp add: repair_solution_continuity_def by_cf_def list_append_def pair_of_def kept_pairs_def
        Let_def mk_dt_def)

lemma ex_mutate: "mutate ex_optimizer2 (\<lambda>i. False) (\<lambda>i. 0) [ex_b1, ex_b2] = Some [ex_b1]"
  by (simp add: mutate_def mutate_gene_def ex_repair)

text \<open>
  A captain on two flights that both leave from DEL, the first one arriving at BOM: the
  repair drops the second flight.
\<close>

theorem repair_continuity_witness:
  "repair_solution_continuity ex_optimizer2 [ex_b1, ex_b2] = [ex_b1]
   \<and> crew_route ex_optimizer2 [ex_b1, ex_b2] ''K2'' = [ex_h1, ex_h2]
   \<and> \<not> linked (crew_route ex_optimizer2 [ex_b1, ex_b2] ''K2'')
   \<and> linked (crew_route ex_optimizer2 (repair_solution_continuity ex_optimizer2 [ex_b1, ex_b2]) ''K2'')
   \<and> mutate ex_optimizer2 (\<lambda>i. False) (\<lambda>i. 0) [ex_b1, ex_b2] = Some [ex_b1]
   \<and> linked (crew_route ex_optimizer2 [ex_b1] ''K2'')"
  using repair_continuity [of ex_optimizer2 "[ex_b1, ex_b2]" "''K2''" "\<lambda>i. 0" "\<lambda>i. False" "\<lambda>i. 0"]
  by (simp add: ex_repair ex_mutate crew_route_def List.map_filter_def mk_dt_def)

lemma ex_retained:
  "{(c, f, r). (Some c, Some f, Some r) \<in> set ex_baseline \<and> c \<noteq> [] \<and> f \<noteq> [] \<and> r \<noteq> []
               \<and> c \<notin> {''K7''} \<and> f \<notin> {''G9''}}
   = {(''K1'', ''G1'', ''Cabin Crew''), (''K2'', ''G2'', ''Captain'')}"
  by (auto simp: ex_baseline_def)

lemma ex_kept:
  "{(c, f, r). Assignment c f r \<in> set [ex_a1, ex_a1, Assignment ''K3'' ''G9'' ''FO'']
               \<and> (Some c, Some f, Some r) \<in> set ex_baseline \<and> c \<noteq> [] \<and> f \<noteq> [] \<and> r \<noteq> []
               \<and> c \<notin> {''K7''} \<and> f \<notin> {''G9''}}
   = {(''K1'', ''G1'', ''Cabin Crew'')}"
  by (auto simp: ex_baseline_def ex_a1_def)

text \<open>
  With crew K7 and flight G9 excluded, two of the five baseline entries are retained.  A
  solution that holds one of them (twice) and an assignment on the excluded flight has
  stability 1/2; the empty solution has stability 0; and with K1 and K2 excluded as well
  nothing is retained and the stability is 0.
\<close>

theorem set_baseline_stability_witness:
  "baseline_pairs (set_baseline ex_optimizer ex_baseline {''K7''} {''G9''})
     = {(''K1'', ''G1'', ''Cabin Crew''), (''K2'', ''G2'', ''Captain'')}
   \<and> calculate_stability_bonus (set_baseline ex_optimizer ex_baseline {''K7''} {''G9''})
       [ex_a1, ex_a1, Assignment ''K3'' ''G9'' ''FO''] = 1 / 2
   \<and> calculate_stability_bonus (set_baseline ex_optimizer ex_baseline {''K7''} {''G9''}) [] = 0
   \<and> calculate_stability_bonus (set_baseline ex_optimizer ex_baseline {''K1'', ''K2'', ''K7''} {''G9''})
       [ex_a1] = 0"
proof -
  have e: "{(c, f, r). (Some c, Some f, Some r) \<in> set ex_baseline \<and> c \<noteq> [] \<and> f \<noteq> [] \<and> r \<noteq> []
               \<and> c \<notin> {''K1'', ''K2'', ''K7''} \<and> f \<notin> {''G9''}} = {}"
    by (auto simp: ex_baseline_def)
  have k0: "{(c, f, r). Assignment c f r \<in> set []
               \<and> (Some c, Some f, Some r) \<in> set ex_baseline \<and> c \<noteq> [] \<and> f \<noteq> [] \<and> r \<noteq> []
               \<and> c \<notin> {''K7''} \<and> f \<notin> {''G9''}} = {}"
    by simp
  show ?thesis
    using set_baseline_stability [of ex_optimizer ex_baseline "{''K7''}" "{''G9''}"
            "[ex_a1, ex_a1, Assignment ''K3'' ''G9'' ''FO'']"]
          set_baseline_stability [of ex_optimizer ex_baseline "{''K7''}" "{''G9''}" "[]"]
          set_baseline_stability [of ex_optimizer ex_baseline "{''K1'', ''K2'', ''K7''}" "{''G9''}" "[ex_a1]"]
    unfolding ex_retained ex_kept e k0 by simp
qed

text \<open>
  Claim C7 as stated fails for a field that is present and empty.  The baseline entry below
  has all three fields, its crew and flight are not excluded, and its role is the empty
  string: \<open>not role\<close> holds and the entry is dropped, so nothing is retained and the solution
  that holds exactly this triple has stability 0.
\<close>

theorem set_baseline_empty_field_counterexample:
  "baseline_pairs (set_baseline ex_optimizer [(Some ''K1'', Some ''G1'', Some [])] {} {}) = {}
   \<and> calculate_stability_bonus (set_baseline ex_optimizer [(Some ''K1'', Some ''G1'', Some [])] {} {})
       [Assignment ''K1'' ''G1'' []] = 0"
  by (simp add: set_baseline_def baseline_step_def falsy_def calculate_stability_bonus_def)

lemma ex_sick_fields [simp]:
  "flights ex_sick_bundle = [ex_f1, ex_f2, ex_f3]"
  "crew ex_sick_bundle = [ex_p1, ex_p2]"
  "sick_days_of ex_sick_bundle ''P1'' = {''2025-09-08''}"
  "sick_days_of ex_sick_bundle ''P2'' = {}"
  by (simp_all add: ex_sick_bundle_def sick_days_of_def)

lemma ex_sick_flight: "flights_by_id ex_sick_bundle ''F1'' = Some ex_f1"
  by (simp add: flights_by_id_def)

lemma ex_sick_cleared: "ex_sick_bundle\<lparr>sickness_days := Map.empty\<rparr> = ex_bundle"
  by (simp add: ex_sick_bundle_def ex_bundle_def)

text \<open>
  Captain P1 is eligible for flight F1; reported sick on its day, she is eligible for no
  flight of the day, and P2 is eligible as before.
\<close>

theorem sick_crew_not_eligible_witness:
  "flights_by_id ex_sick_bundle ''F1'' = Some ex_f1
   \<and> flight_day_str (dep_dt ex_f1) \<in> sick_days_of ex_sick_bundle ''P1''
   \<and> (''P1'', ''F1'', ''Captain'', 0) \<in> set (eligible (build_eligibility ex_bundle))
   \<and> (''P1'', ''F1'', ''Captain'', 0) \<notin> set (eligible (build_eligibility ex_sick_bundle))
   \<and> eligible (build_eligibility ex_sick_bundle) =
       [(''P2'', ''F1'', ''Captain'', 0), (''P2'', ''F2'', ''Captain'', 0), (''P2'', ''F3'', ''Captain'', 0)]"
  using sick_crew_not_eligible [of ex_sick_bundle "''F1''" ex_f1 "''P1''" "''Captain''" 0]
  by (simp add: ex_sick_flight ex_sick_cleared ex_eligible flights_by_id_def)



text \<open>The example solution holds P1 once on F1.\<close>

lemma exact_one_seat_per_flight_example:
  "exact_model ex_bundle = Inr ex_model \<and> feasible ex_val ex_model
   \<and> exact_assignments ex_bundle ex_val =
       [Assignment ''P1'' ''F1'' ''Captain'', Assignment ''P2'' ''F2'' ''Captain'',
        Assignment ''P1'' ''F3'' ''Captain'']
   \<and> length (filter (\<lambda>a. a_crew_id a = ''P1'' \<and> a_flight_id a = ''F1'')
               (exact_assignments ex_bundle ex_val)) \<le> 1"
  using exact_one_seat_per_flight [OF ex_exact_model ex_feasible, of "''P1''" "''F1''"]
  by (simp add: ex_exact_model ex_feasible exact_assignments_def ex_x_items ex_items_def k_defs)

lemma ex_nofo_fields [simp]:
  "flights ex_nofo_bundle = [ex_f1\<lparr> needed_fo := 1 \<rparr>]"
  "crew ex_nofo_bundle = [ex_p1, ex_p2]"
  "rules ex_nofo_bundle = ex_rules"
  "sickness_days ex_nofo_bundle = Map.empty"
  by (simp_all add: ex_nofo_bundle_def)

lemma ex_nofo_model: "exact_model ex_nofo_bundle = Inr ex_nofo_model"
  by (simp add: exact_model_def build_model_with_constraints_def window_times_def ex_rules_def
        ex_nofo_model_def Let_def)

lemma ex_nofo_slots:
  "role_slots (build_eligibility ex_nofo_bundle) = [RoleSlot ''F1'' ''Captain'' 0, RoleSlot ''F1'' ''FO'' 0]"
  by (simp add: build_eligibility_def build_role_slots_def slots_of_flight_def Let_def)

lemma ex_nofo_eligible:
  "eligible (build_eligibility ex_nofo_bundle) =
     [(''P1'', ''F1'', ''Captain'', 0), (''P2'', ''F1'', ''Captain'', 0)]"
  by (simp add: eligible_eq eligible_for_slot_eq build_role_slots_def slots_of_flight_def
        crew_role_matches_def sick_days_of_def flights_by_id_def)

lemma ex_two_fields [simp]:
  "flights ex_two_bundle = [ex_f1\<lparr> needed_captains := 2 \<rparr>]"
  "crew ex_two_bundle = [ex_p1, ex_p2]"
  "rules ex_two_bundle = ex_rules"
  "sickness_days ex_two_bundle = Map.empty"
  by (simp_all add: ex_two_bundle_def)

lemma ex_two_model: "exact_model ex_two_bundle = Inr ex_two_model"
  by (simp add: exact_model_def build_model_with_constraints_def window_times_def ex_rules_def
        ex_two_model_def Let_def)

lemma ex_two_slots:
  "role_slots (build_eligibility ex_two_bundle) = [RoleSlot ''F1'' ''Captain'' 0, RoleSlot ''F1'' ''Captain'' 1]"
  by (simp add: build_eligibility_def build_role_slots_def slots_of_flight_def Let_def upt_conv_Cons)

lemma ex_two_eligible:
  "eligible (build_eligibility ex_two_bundle) =
     [(''P1'', ''F1'', ''Captain'', 0), (''P2'', ''F1'', ''Captain'', 0),
      (''P1'', ''F1'', ''Captain'', 1), (''P2'', ''F1'', ''Captain'', 1)]"
  by (simp add: eligible_eq eligible_for_slot_eq build_role_slots_def slots_of_flight_def
        crew_role_matches_def sick_days_of_def flights_by_id_def upt_conv_Cons)

lemma ex_two_items:
  "x_items (eligible (build_eligibility ex_two_bundle)) =
     [((''P1'', ''F1'', ''Captain'', 0), 0), ((''P2'', ''F1'', ''Captain'', 0), 1),
      ((''P1'', ''F1'', ''Captain'', 1), 2), ((''P2'', ''F1'', ''Captain'', 1), 3)]"
  by (simp add: ex_two_eligible x_items_def upt_conv_Cons)

text \<open>
  In the example solution the only chosen tuple of the captain's seat of F1 is (P1, F1,
  Captain, 0).  When F1 has two captain seats, the second seat has its own constraint, over
  the variables of (P1, F1, Captain, 1) and (P2, F1, Captain, 1), and the valuation that
  chooses one tuple of the first seat only is not feasible.  With a first officer's seat and
  no first officer, the example valuation is not feasible.
\<close>

theorem coverage_exactly_one_witness:
  "exact_model ex_bundle = Inr ex_model
   \<and> RoleSlot ''F1'' ''Captain'' 0 \<in> set (role_slots (build_eligibility ex_bundle))
   \<and> feasible ex_val ex_model
   \<and> length (filter (slot_of_tuple (RoleSlot ''F1'' ''Captain'' 0))
        (map fst (filter (\<lambda>it. ex_val (k_var it) = 1)
                    (x_items (eligible (build_eligibility ex_bundle)))))) = 1
   \<and> filter (slot_of_tuple (RoleSlot ''F1'' ''Captain'' 0))
        (map fst (filter (\<lambda>it. ex_val (k_var it) = 1) (x_items (eligible (build_eligibility ex_bundle)))))
       = [(''P1'', ''F1'', ''Captain'', 0)]
   \<and> exact_model ex_two_bundle = Inr ex_two_model
   \<and> RoleSlot ''F1'' ''Captain'' 1 \<in> set (role_slots (build_eligibility ex_two_bundle))
   \<and> Lin (sum_vars [X 2, X 3]) EQ (const 1) \<in> set ex_two_model
   \<and> \<not> feasible ex_single_val ex_two_model
   \<and> exact_model ex_nofo_bundle = Inr ex_nofo_model
   \<and> RoleSlot ''F1'' ''FO'' 0 \<in> set (role_slots (build_eligibility ex_nofo_bundle))
   \<and> filter (slot_of_tuple (RoleSlot ''F1'' ''FO'' 0)) (eligible (build_eligibility ex_nofo_bundle)) = []
   \<and> \<not> feasible ex_val ex_nofo_model"
proof -
  have 1: "RoleSlot ''F1'' ''Captain'' 0 \<in> set (role_slots (build_eligibility ex_bundle))"
    by (simp add: ex_role_slots)
  have 2: "RoleSlot ''F1'' ''FO'' 0 \<in> set (role_slots (build_eligibility ex_nofo_bundle))"
    by (simp add: ex_nofo_slots)
  have 3: "filter (slot_of_tuple (RoleSlot ''F1'' ''FO'' 0)) (eligible (build_eligibility ex_nofo_bundle)) = []"
    by (simp add: ex_nofo_eligible slot_of_tuple_def)
  have 4: "RoleSlot ''F1'' ''Captain'' 1 \<in> set (role_slots (build_eligibility ex_two_bundle))"
    by (simp add: ex_two_slots)
  have 5: "filter (slot_of_tuple (RoleSlot ''F1'' ''Captain'' 0))
        (map fst (filter (\<lambda>it. ex_val (k_var it) = 1) (x_items (eligible (build_eligibility ex_bundle)))))
       = [(''P1'', ''F1'', ''Captain'', 0)]"
    by (simp add: ex_x_items ex_items_def k_var_def slot_of_tuple_def)
  have 6: "map k_var (filter (\<lambda>it. slot_of_tuple (RoleSlot ''F1'' ''Captain'' 1) (fst it))
             (x_items (eligible (build_eligibility ex_two_bundle)))) = [X 2, X 3]"
    by (simp add: ex_two_items slot_of_tuple_def k_var_def)
  have 7: "filter (slot_of_tuple (RoleSlot ''F1'' ''Captain'' 1))
        (map fst (filter (\<lambda>it. ex_single_val (k_var it) = 1)
                    (x_items (eligible (build_eligibility ex_two_bundle))))) = []"
    by (simp add: ex_two_items k_var_def slot_of_tuple_def ex_single_val_def)
  note a = coverage_exactly_one [OF ex_exact_model 1, of ex_val]
  note b = coverage_exactly_one [OF ex_two_model 4, of ex_single_val, unfolded 6 7]
  note c = coverage_exactly_one [OF ex_nofo_model 2, of ex_val]
  from a ex_feasible have a2: "length (filter (slot_of_tuple (RoleSlot ''F1'' ''Captain'' 0))
        (map fst (filter (\<lambda>it. ex_val (k_var it) = 1)
                    (x_items (eligible (build_eligibility ex_bundle)))))) = 1"
    by blast
  from b have b1: "Lin (sum_vars [X 2, X 3]) EQ (const 1) \<in> set ex_two_model" by blast
  from b have b2: "\<not> feasible ex_single_val ex_two_model" by auto
  from c 3 have c3: "\<not> feasible ex_val ex_nofo_model" by blast
  from ex_exact_model 1 ex_feasible a2 5 ex_two_model 4 b1 b2 ex_nofo_model 2 3 c3
  show ?thesis by blast
qed


text \<open>
  Claim C1.  In the example the minimum rest is 12 hours.  The rest constraints exclude
  F1 with F2 and F2 with F3 for each captain, the pairs that are adjacent among the crew's
  potential flights, and nothing excludes F1 with F3, four hours apart.  The valuation that
  puts P1 on F1 and F3 and P2 on F2 satisfies every constraint of the model, so the solution
  has two consecutive assignments of P1 with less than the minimum rest between them.
\<close>

theorem rest_gap_not_enforced:
  "exact_model ex_bundle = Inr ex_model
   \<and> feasible ex_val ex_model
   \<and> exact_assignments ex_bundle ex_val =
       [Assignment ''P1'' ''F1'' ''Captain'', Assignment ''P2'' ''F2'' ''Captain'',
        Assignment ''P1'' ''F3'' ''Captain'']
   \<and> dep_dt ex_f3 - arr_dt ex_f1 < min_rest_hours_between_duties (rules ex_bundle) * 3600
   \<and> rest_constraints ex_bundle (eligible (build_eligibility ex_bundle))
        (x_items (eligible (build_eligibility ex_bundle))) =
       [Lin ([(1, X 0), (1, X 2)], 0) LE (const 1), Lin ([(1, X 2), (1, X 4)], 0) LE (const 1),
        Lin ([(1, X 1), (1, X 3)], 0) LE (const 1), Lin ([(1, X 3), (1, X 5)], 0) LE (const 1)]"
  by (simp add: ex_exact_model ex_feasible exact_assignments_def ex_x_items ex_rest_list)
     (simp add: ex_items_def k_defs ex_rules_def mk_dt_def)

end
